theory Spec2Isabelle
  imports Main "HOL-Library.Sublist"
begin

section \<open>Data model\<close>

text \<open>
  The backend of the video merger (\<^verbatim>\<open>backend/src/media.js\<close>, \<^verbatim>\<open>backend/src/index.js\<close>)
  drives two external programs, \<^verbatim>\<open>ffprobe\<close> and \<^verbatim>\<open>ffmpeg\<close>, and the file system.
  Every JavaScript promise of the source is modelled by its three possible fates: it
  resolves with a value, it rejects with an error (only the \<^verbatim>\<open>message\<close> of the
  \<^verbatim>\<open>Error\<close> is kept, as a string), or it never settles.
\<close>

datatype 'a outcome = Resolved 'a | Rejected string | Pending

text \<open>A file object as multer hands it to the handler (\<^verbatim>\<open>file.path\<close>, \<^verbatim>\<open>file.originalname\<close>).\<close>

record upload =
  path :: string
  originalname :: string

text \<open>
  One entry of \<^verbatim>\<open>metadata.streams\<close>. \<^verbatim>\<open>width\<close> and \<^verbatim>\<open>height\<close> are \<^verbatim>\<open>undefined\<close>
  on streams that carry none, hence the option.
\<close>

record stream =
  codec_type :: string
  codec_name :: string
  width :: "int option"
  height :: "int option"

text \<open>The result of \<^verbatim>\<open>ffprobe\<close>; the \<^verbatim>\<open>format\<close> part is only logged by the source.\<close>

record metadata =
  streams :: "stream list"

text \<open>One fluent-ffmpeg command as the source builds it before \<^verbatim>\<open>.run()\<close>.\<close>

record ffmpeg_cmd =
  inputs :: "string list"
  inputOptions :: "string list"
  outputOptions :: "string list"
  outputFile :: string

text \<open>
  The external engine: what \<^verbatim>\<open>ffprobe\<close> answers for a path and how an \<^verbatim>\<open>ffmpeg\<close>
  run of a command ends. Both are parameters of the model; every theorem below holds
  for all engines.
\<close>

record engine =
  ffprobe :: "string \<Rightarrow> metadata outcome"
  run :: "ffmpeg_cmd \<Rightarrow> unit outcome"

text \<open>What the process does to the outside world, in order.\<close>

datatype event =
  Mkdir string
  | Probe string
  | Run ffmpeg_cmd
  | WriteFile string string
  | Unlink string

text \<open>The world: the regular files that exist, and the history of effects.\<close>

record world =
  files :: "string set"
  trace :: "event list"

definition emit :: "event \<Rightarrow> world \<Rightarrow> world" where
  "emit ev w = w\<lparr>trace := trace w @ [ev]\<rparr>"

definition emits :: "event list \<Rightarrow> world \<Rightarrow> world" where
  "emits evs w = w\<lparr>trace := trace w @ evs\<rparr>"

section \<open>JavaScript plumbing\<close>

text \<open>\<^verbatim>\<open>await\<close>: continue with the value of a resolved promise, stop on the other two.\<close>

fun await :: "'a outcome \<times> world \<Rightarrow> ('a \<Rightarrow> world \<Rightarrow> 'b outcome \<times> world) \<Rightarrow> 'b outcome \<times> world" where
  "await (Resolved x, w) k = k x w"
| "await (Rejected e, w) k = (Rejected e, w)"
| "await (Pending, w) k = (Pending, w)"

text \<open>\<^verbatim>\<open>try { ... } catch (error) { ... }\<close> around an awaited body.\<close>

fun try_catch :: "'a outcome \<times> world \<Rightarrow> (string \<Rightarrow> world \<Rightarrow> 'a outcome \<times> world) \<Rightarrow> 'a outcome \<times> world" where
  "try_catch (Resolved x, w) h = (Resolved x, w)"
| "try_catch (Rejected e, w) h = h e w"
| "try_catch (Pending, w) h = (Pending, w)"

text \<open>\<^verbatim>\<open>a > b\<close> on a possibly undefined number: \<^verbatim>\<open>undefined > b\<close> is false.\<close>

fun js_gt :: "int option \<Rightarrow> int \<Rightarrow> bool" where
  "js_gt None b = False"
| "js_gt (Some a) b = (a > b)"

text \<open>\<^verbatim>\<open>Array.prototype.join\<close> on strings.\<close>

fun join :: "string \<Rightarrow> string list \<Rightarrow> string" where
  "join sep [] = []"
| "join sep [x] = x"
| "join sep (x # y # ys) = x @ sep @ join sep (y # ys)"

text \<open>The decimal rendering of a non-negative integer in a template literal.\<close>

definition digit_char :: "nat \<Rightarrow> char" where
  "digit_char d = char_of (48 + d)"

fun string_of_nat :: "nat \<Rightarrow> string" where
  "string_of_nat n =
     (if n < 10 then [digit_char n] else string_of_nat (n div 10) @ [digit_char (n mod 10)])"

declare string_of_nat.simps [simp del]

text \<open>
  \<^verbatim>\<open>path.join(a, b)\<close> for the calls of the source, whose second argument is a plain
  file or directory name and whose first is the (normalised) current directory or a
  directory below it. The current directory is taken not to be the root \<^verbatim>\<open>/\<close>, where
  \<^verbatim>\<open>path.join\<close> would not repeat the separator.
\<close>

definition path_join :: "string \<Rightarrow> string \<Rightarrow> string" where
  "path_join a b = a @ ''/'' @ b"

section \<open>media.js\<close>

text \<open>The three process-wide directories; \<open>cwd\<close> is \<^verbatim>\<open>process.cwd()\<close>.\<close>

definition UPLOAD_DIR :: "string \<Rightarrow> string" where
  "UPLOAD_DIR cwd = path_join cwd ''uploads''"

definition OUTPUT_DIR :: "string \<Rightarrow> string" where
  "OUTPUT_DIR cwd = path_join cwd ''outputs''"

definition TEMP_DIR :: "string \<Rightarrow> string" where
  "TEMP_DIR cwd = path_join cwd ''temp''"

text \<open>
  The calls of the process to the file system are taken to succeed: \<^verbatim>\<open>mkdir\<close> with
  \<^verbatim>\<open>recursive: true\<close> here, \<^verbatim>\<open>writeFile\<close> below. Only \<^verbatim>\<open>unlink\<close> can fail, on a
  file that is not there.
\<close>

definition ensureDirectories :: "string \<Rightarrow> world \<Rightarrow> unit outcome \<times> world" where
  "ensureDirectories cwd w =
     (Resolved (), emits [Mkdir (UPLOAD_DIR cwd), Mkdir (OUTPUT_DIR cwd), Mkdir (TEMP_DIR cwd)] w)"

definition getVideoMetadata :: "engine \<Rightarrow> string \<Rightarrow> world \<Rightarrow> metadata outcome \<times> world" where
  "getVideoMetadata E filePath w = (ffprobe E filePath, emit (Probe filePath) w)"

definition supportedVideoCodecs :: "string list" where
  "supportedVideoCodecs = [''h264'', ''hevc'', ''vp8'', ''vp9'']"

definition supportedAudioCodecs :: "string list" where
  "supportedAudioCodecs = [''aac'', ''mp3'', ''opus'', ''vorbis'']"

definition noVideoStreamMsg :: "upload \<Rightarrow> string" where
  "noVideoStreamMsg file = ''No video stream found in '' @ originalname file"

definition unsupportedVideoCodecMsg :: "upload \<Rightarrow> string" where
  "unsupportedVideoCodecMsg file =
     ''Unsupported video codec in '' @ originalname file @ ''. Supported codecs: ''
       @ join '', '' supportedVideoCodecs"

definition resolutionTooHighMsg :: "upload \<Rightarrow> string" where
  "resolutionTooHighMsg file =
     ''Video resolution too high in '' @ originalname file @ ''. Maximum supported: 4K (3840x2160)''"

definition noAudioStreamMsg :: "upload \<Rightarrow> string" where
  "noAudioStreamMsg file = ''No audio stream found in '' @ originalname file"

definition unsupportedAudioCodecMsg :: "upload \<Rightarrow> string" where
  "unsupportedAudioCodecMsg file =
     ''Unsupported audio codec in '' @ originalname file @ ''. Supported codecs: ''
       @ join '', '' supportedAudioCodecs"

text \<open>
  The checks of \<^verbatim>\<open>validateVideos\<close> on the metadata of one file (lines 52 to 67):
  \<^verbatim>\<open>find\<close> takes the first stream whose \<^verbatim>\<open>codec_type\<close> is \<^verbatim>\<open>"video"\<close>.
\<close>

definition checkVideoStreams :: "upload \<Rightarrow> metadata \<Rightarrow> unit outcome" where
  "checkVideoStreams file md =
     (case find (\<lambda>s. codec_type s = ''video'') (streams md) of
        None \<Rightarrow> Rejected (noVideoStreamMsg file)
      | Some videoStream \<Rightarrow>
          if codec_name videoStream \<notin> set supportedVideoCodecs
          then Rejected (unsupportedVideoCodecMsg file)
          else if js_gt (width videoStream) 3840 \<or> js_gt (height videoStream) 2160
          then Rejected (resolutionTooHighMsg file)
          else Resolved ())"

text \<open>
  The body of the \<^verbatim>\<open>for (const file of files)\<close> loop. Its \<^verbatim>\<open>catch\<close> logs the error
  and throws it again unchanged.
\<close>

definition validateVideo :: "engine \<Rightarrow> upload \<Rightarrow> world \<Rightarrow> unit outcome \<times> world" where
  "validateVideo E file w =
     try_catch
       (await (getVideoMetadata E (path file) w) (\<lambda>md w'. (checkVideoStreams file md, w')))
       (\<lambda>err w'. (Rejected err, w'))"

fun validateVideos :: "engine \<Rightarrow> upload list \<Rightarrow> world \<Rightarrow> unit outcome \<times> world" where
  "validateVideos E [] w = (Resolved (), w)"
| "validateVideos E (file # rest) w =
     await (validateVideo E file w) (\<lambda>_ w'. validateVideos E rest w')"

definition checkAudioStreams :: "upload \<Rightarrow> metadata \<Rightarrow> unit outcome" where
  "checkAudioStreams file md =
     (case find (\<lambda>s. codec_type s = ''audio'') (streams md) of
        None \<Rightarrow> Rejected (noAudioStreamMsg file)
      | Some audioStream \<Rightarrow>
          if codec_name audioStream \<notin> set supportedAudioCodecs
          then Rejected (unsupportedAudioCodecMsg file)
          else Resolved ())"

definition validateMusic :: "engine \<Rightarrow> upload \<Rightarrow> world \<Rightarrow> unit outcome \<times> world" where
  "validateMusic E file w =
     try_catch
       (await (getVideoMetadata E (path file) w) (\<lambda>md w'. (checkAudioStreams file md, w')))
       (\<lambda>err w'. (Rejected err, w'))"

text \<open>
  Running a built command: the promise resolves on the \<^verbatim>\<open>end\<close> event, after which the
  output file exists, and rejects on the \<^verbatim>\<open>error\<close> event. Nothing in the source bounds
  the wait. A failed run is taken to leave no output file behind (the engine may in
  fact leave a partial one, which is then one more file that stays).
\<close>

definition runFfmpeg :: "engine \<Rightarrow> ffmpeg_cmd \<Rightarrow> world \<Rightarrow> unit outcome \<times> world" where
  "runFfmpeg E cmd w =
     (case run E cmd of
        Resolved _ \<Rightarrow> (Resolved (), emit (Run cmd) (w\<lparr>files := insert (outputFile cmd) (files w)\<rparr>))
      | Rejected err \<Rightarrow> (Rejected err, emit (Run cmd) w)
      | Pending \<Rightarrow> (Pending, emit (Run cmd) w))"

definition processVideoCmd :: "string \<Rightarrow> string \<Rightarrow> ffmpeg_cmd" where
  "processVideoCmd inputPath outputPath =
     \<lparr>inputs = [inputPath],
      inputOptions = [],
      outputOptions =
        [''-c:v libx264'', ''-preset medium'', ''-crf 23'', ''-movflags +faststart'',
         ''-pix_fmt yuv420p'', ''-r 30'', ''-vsync cfr'', ''-async 1''],
      outputFile = outputPath\<rparr>"

definition processVideo :: "engine \<Rightarrow> string \<Rightarrow> string \<Rightarrow> world \<Rightarrow> unit outcome \<times> world" where
  "processVideo E inputPath outputPath w = runFfmpeg E (processVideoCmd inputPath outputPath) w"

definition processedPath :: "string \<Rightarrow> nat \<Rightarrow> string" where
  "processedPath cwd i = path_join (TEMP_DIR cwd) (''processed_'' @ string_of_nat i @ ''.mp4'')"

text \<open>
  The loop \<^verbatim>\<open>for (let i = 0; i < videoFiles.length; i++)\<close> of \<^verbatim>\<open>mergeVideosWithMusic\<close>,
  from index \<open>i\<close> on, with the array \<^verbatim>\<open>processedVideos\<close> built so far.
\<close>

function processLoop ::
  "engine \<Rightarrow> string \<Rightarrow> upload list \<Rightarrow> nat \<Rightarrow> string list \<Rightarrow> world \<Rightarrow> string list outcome \<times> world" where
  "processLoop E cwd videoFiles i processedVideos w =
     (if i < length videoFiles
      then await (processVideo E (path (videoFiles ! i)) (processedPath cwd i) w)
             (\<lambda>_ w'. processLoop E cwd videoFiles (i + 1) (processedVideos @ [processedPath cwd i]) w')
      else (Resolved processedVideos, w))"
  by pat_completeness auto
termination
  by (relation "measure (\<lambda>(E, cwd, videoFiles, i, processedVideos, w). length videoFiles - i)") auto

declare processLoop.simps [simp del]

definition listPath :: "string \<Rightarrow> string" where
  "listPath cwd = path_join (TEMP_DIR cwd) ''filelist.txt''"

definition concatenatedPath :: "string \<Rightarrow> string" where
  "concatenatedPath cwd = path_join (TEMP_DIR cwd) ''concatenated.mp4''"

definition outputPath :: "string \<Rightarrow> string" where
  "outputPath cwd = path_join (OUTPUT_DIR cwd) ''merged.mp4''"

definition fileList :: "string list \<Rightarrow> string" where
  "fileList processedVideos =
     join [CHR 0x0A] (map (\<lambda>file. ''file '' @ [CHR 0x27] @ file @ [CHR 0x27]) processedVideos)"

definition writeFile :: "string \<Rightarrow> string \<Rightarrow> world \<Rightarrow> unit outcome \<times> world" where
  "writeFile p content w = (Resolved (), emit (WriteFile p content) (w\<lparr>files := insert p (files w)\<rparr>))"

definition concatCmd :: "string \<Rightarrow> ffmpeg_cmd" where
  "concatCmd cwd =
     \<lparr>inputs = [listPath cwd],
      inputOptions = [''-f concat'', ''-safe 0''],
      outputOptions =
        [''-c:v libx264'', ''-preset medium'', ''-crf 23'', ''-pix_fmt yuv420p'',
         ''-r 30'', ''-vsync cfr'', ''-async 1'', ''-movflags +faststart''],
      outputFile = concatenatedPath cwd\<rparr>"

definition muxCmd :: "string \<Rightarrow> upload \<Rightarrow> ffmpeg_cmd" where
  "muxCmd cwd musicFile =
     \<lparr>inputs = [concatenatedPath cwd, path musicFile],
      inputOptions = [],
      outputOptions =
        [''-c:v copy'', ''-c:a aac'', ''-b:a 192k'', ''-shortest'',
         ''-map 0:v:0'', ''-map 1:a:0'', ''-movflags +faststart''],
      outputFile = outputPath cwd\<rparr>"

text \<open>
  \<^verbatim>\<open>fs.unlink(p).catch(err => console.error(...))\<close>: the file is removed when it
  exists; when it does not, the rejection is logged and swallowed.
\<close>

definition unlinkLogged :: "string \<Rightarrow> world \<Rightarrow> world" where
  "unlinkLogged p w = emit (Unlink p) (w\<lparr>files := files w - {p}\<rparr>)"

text \<open>\<^verbatim>\<open>Promise.all\<close> over such promises, none of which can reject.\<close>

definition unlinkAll :: "string list \<Rightarrow> world \<Rightarrow> unit outcome \<times> world" where
  "unlinkAll ps w = (Resolved (), fold unlinkLogged ps w)"

definition mergeFailedMsg :: "string \<Rightarrow> string" where
  "mergeFailedMsg message = ''Video merge failed: '' @ message"

definition mergeVideosWithMusic ::
  "engine \<Rightarrow> string \<Rightarrow> upload list \<Rightarrow> upload \<Rightarrow> world \<Rightarrow> string outcome \<times> world" where
  "mergeVideosWithMusic E cwd videoFiles musicFile w =
     try_catch
       (await (ensureDirectories cwd w) (\<lambda>_ w.
        await (validateVideos E videoFiles w) (\<lambda>_ w.
        await (validateMusic E musicFile w) (\<lambda>_ w.
        await (processLoop E cwd videoFiles 0 [] w) (\<lambda>processedVideos w.
        await (writeFile (listPath cwd) (fileList processedVideos) w) (\<lambda>_ w.
        await (runFfmpeg E (concatCmd cwd) w) (\<lambda>_ w.
        await (runFfmpeg E (muxCmd cwd musicFile) w) (\<lambda>_ w.
        await (unlinkAll (processedVideos @ [listPath cwd, concatenatedPath cwd]) w) (\<lambda>_ w.
        (Resolved (outputPath cwd), w))))))))))
       (\<lambda>error w. (Rejected (mergeFailedMsg error), w))"

section \<open>index.js\<close>

text \<open>What the handler of \<^verbatim>\<open>POST /merge\<close> answers: a JSON body with a status, or the download.\<close>

datatype response =
  Json nat "(string \<times> string) list"
  | Download string string

text \<open>The files that arrived in field \<open>f\<close> of a multipart body, in order of arrival.\<close>

definition filesOfField :: "string \<Rightarrow> (string \<times> upload) list \<Rightarrow> upload list" where
  "filesOfField f parts = map snd (filter (\<lambda>p. fst p = f) parts)"

text \<open>
  Modelled from the spec: the multer middleware \<^verbatim>\<open>upload.fields([...])\<close> is a dependency
  whose code is not part of the repository. Its configuration is in the source (at most
  20 files in field \<^verbatim>\<open>videos\<close>, at most one in \<^verbatim>\<open>music\<close>); its behaviour is taken from
  the policy of the specification (a maximum input count that rejects the job before any
  probing): a part whose field is not configured, or one more file in a field than its
  \<^verbatim>\<open>maxCount\<close>, ends the request with the error \<^verbatim>\<open>Unexpected field\<close> before the handler
  runs; otherwise \<^verbatim>\<open>req.files\<close> maps each field that received files to the array of its
  files, in order of arrival. The per-file size limit is not modelled.
\<close>

definition upload_fields ::
  "(string \<times> nat) list \<Rightarrow> (string \<times> upload) list \<Rightarrow> string + (string \<times> upload list) list" where
  "upload_fields spec parts =
     (if list_all (\<lambda>p. fst p \<in> set (map fst spec)) parts
         \<and> list_all (\<lambda>fn. length (filesOfField (fst fn) parts) \<le> snd fn) spec
      then Inr (filter (\<lambda>fu. snd fu \<noteq> []) (map (\<lambda>fn. (fst fn, filesOfField (fst fn) parts)) spec))
      else Inl ''Unexpected field'')"

text \<open>The field configuration of the route (lines 59 to 62).\<close>

definition mergeFields :: "(string \<times> nat) list" where
  "mergeFields = [(''videos'', 20), (''music'', 1)]"

text \<open>
  Lines 66 to 82 of the handler: the early returns with status 400, or the arguments
  with which \<^verbatim>\<open>mergeVideosWithMusic\<close> is called. \<^verbatim>\<open>req.files\<close> is undefined when the
  request had no multipart body.
\<close>

definition extractJob :: "(string \<times> upload list) list option \<Rightarrow> response + (upload list \<times> upload)" where
  "extractJob reqFiles =
     (case reqFiles of
        None \<Rightarrow> Inl (Json 400 [(''error'', ''No files uploaded'')])
      | Some fs \<Rightarrow>
          (let videoFiles = map_of fs ''videos'';
               musicFile = (case map_of fs ''music'' of
                              None \<Rightarrow> None
                            | Some [] \<Rightarrow> None
                            | Some (m # _) \<Rightarrow> Some m)
           in case videoFiles of
                None \<Rightarrow> Inl (Json 400 [(''error'', ''No video files uploaded'')])
              | Some vs \<Rightarrow>
                  if length vs = 0 then Inl (Json 400 [(''error'', ''No video files uploaded'')])
                  else (case musicFile of
                          None \<Rightarrow> Inl (Json 400 [(''error'', ''No music file uploaded'')])
                        | Some m \<Rightarrow> Inr (vs, m))))"

text \<open>
  The handler proper. On success the file is sent and, in the callback of
  \<^verbatim>\<open>res.download\<close>, the uploaded inputs are unlinked, whether or not the transfer went
  well (a transfer that fails changes the answer only, and is not modelled); the
  \<^verbatim>\<open>catch\<close> answers 500 and unlinks nothing. A merge that never settles leaves the
  request unanswered.
\<close>

definition mergeHandler ::
  "engine \<Rightarrow> string \<Rightarrow> (string \<times> upload list) list option \<Rightarrow> world \<Rightarrow> response outcome \<times> world" where
  "mergeHandler E cwd reqFiles w =
     (case extractJob reqFiles of
        Inl resp \<Rightarrow> (Resolved resp, w)
      | Inr (videoFiles, musicFile) \<Rightarrow>
          (case mergeVideosWithMusic E cwd videoFiles musicFile w of
             (Resolved out, w') \<Rightarrow>
               (Resolved (Download out ''merged.mp4''),
                fold unlinkLogged (map path videoFiles @ [path musicFile]) w')
           | (Rejected msg, w') \<Rightarrow>
               (Resolved (Json 500 [(''error'', ''Merge failed''), (''details'', msg)]), w')
           | (Pending, w') \<Rightarrow> (Pending, w')))"

text \<open>
  The route: multer stores the uploaded files and fills \<^verbatim>\<open>req.files\<close>, then the
  handler runs; an error of multer goes to the error-handling middleware (lines 135 to
  141) and the handler does not run (multer removes what it had stored, so that the
  files are as before). The body is \<open>None\<close> for a request that is not multipart, else
  the file parts as (field name, stored file) in order of arrival. The directory
  \<^verbatim>\<open>uploads\<close> is taken to exist, so that multer can store into it.
\<close>

definition postMerge ::
  "engine \<Rightarrow> string \<Rightarrow> (string \<times> upload) list option \<Rightarrow> world \<Rightarrow> response outcome \<times> world" where
  "postMerge E cwd body w =
     (case body of
        None \<Rightarrow> mergeHandler E cwd None w
      | Some parts \<Rightarrow>
          (case upload_fields mergeFields parts of
             Inl msg \<Rightarrow>
               (Resolved (Json 500 [(''error'', ''Internal server error''), (''details'', msg)]), w)
           | Inr reqFiles \<Rightarrow>
               mergeHandler E cwd (Some reqFiles)
                 (w\<lparr>files := files w \<union> set (map (\<lambda>p. path (snd p)) parts)\<rparr>)))"

section \<open>Notions used to state the properties\<close>

text \<open>
  The verdict of validation on one video and on the music file: the answer of
  \<^verbatim>\<open>ffprobe\<close> followed by the checks. Lemmas \<open>validateVideo_eq\<close> and
  \<open>validateMusic_eq\<close> show that this is what the source functions return.
\<close>

definition videoVerdict :: "engine \<Rightarrow> upload \<Rightarrow> unit outcome" where
  "videoVerdict E file =
     (case ffprobe E (path file) of
        Resolved md \<Rightarrow> checkVideoStreams file md
      | Rejected err \<Rightarrow> Rejected err
      | Pending \<Rightarrow> Pending)"

definition musicVerdict :: "engine \<Rightarrow> upload \<Rightarrow> unit outcome" where
  "musicVerdict E file =
     (case ffprobe E (path file) of
        Resolved md \<Rightarrow> checkAudioStreams file md
      | Rejected err \<Rightarrow> Rejected err
      | Pending \<Rightarrow> Pending)"

definition allVideosPass :: "engine \<Rightarrow> upload list \<Rightarrow> bool" where
  "allVideosPass E vs = list_all (\<lambda>f. videoVerdict E f = Resolved ()) vs"

text \<open>The command that normalises the video at position \<open>i\<close>, as the loop builds it.\<close>

definition encodeCmd :: "string \<Rightarrow> upload list \<Rightarrow> nat \<Rightarrow> ffmpeg_cmd" where
  "encodeCmd cwd videoFiles i = processVideoCmd (path (videoFiles ! i)) (processedPath cwd i)"

text \<open>The normalisations of positions \<open>0\<close> to \<open>k - 1\<close> all end well.\<close>

definition encodesOk :: "engine \<Rightarrow> string \<Rightarrow> upload list \<Rightarrow> nat \<Rightarrow> bool" where
  "encodesOk E cwd vs k = list_all (\<lambda>j. run E (encodeCmd cwd vs j) = Resolved ()) [0..<k]"

text \<open>
  A promise that did not resolve, seen at another result type, and the same after the
  \<^verbatim>\<open>catch\<close> of \<^verbatim>\<open>mergeVideosWithMusic\<close> has wrapped the message.
\<close>

fun failAs :: "'a outcome \<Rightarrow> 'b outcome" where
  "failAs (Rejected e) = Rejected e"
| "failAs _ = Pending"

fun mergeFailure :: "'a outcome \<Rightarrow> string outcome" where
  "mergeFailure (Rejected e) = Rejected (mergeFailedMsg e)"
| "mergeFailure _ = Pending"

text \<open>The effects of the stages of one job, in the order the source produces them.\<close>

definition setupEvents :: "string \<Rightarrow> event list" where
  "setupEvents cwd = [Mkdir (UPLOAD_DIR cwd), Mkdir (OUTPUT_DIR cwd), Mkdir (TEMP_DIR cwd)]"

definition probeEvents :: "upload list \<Rightarrow> event list" where
  "probeEvents fs = map (\<lambda>f. Probe (path f)) fs"

definition validationEvents :: "string \<Rightarrow> upload list \<Rightarrow> upload \<Rightarrow> event list" where
  "validationEvents cwd vs m = setupEvents cwd @ probeEvents (vs @ [m])"

definition encodeEvents :: "string \<Rightarrow> upload list \<Rightarrow> nat \<Rightarrow> event list" where
  "encodeEvents cwd vs k = map (\<lambda>j. Run (encodeCmd cwd vs j)) [0..<k]"

definition manifestEvent :: "string \<Rightarrow> nat \<Rightarrow> event" where
  "manifestEvent cwd n = WriteFile (listPath cwd) (fileList (map (processedPath cwd) [0..<n]))"

definition cleanupEvents :: "string \<Rightarrow> nat \<Rightarrow> event list" where
  "cleanupEvents cwd n = map Unlink (map (processedPath cwd) [0..<n] @ [listPath cwd, concatenatedPath cwd])"

text \<open>Reading a decimal rendering back, to show that positions get different names.\<close>

definition digitsValue :: "string \<Rightarrow> nat" where
  "digitsValue s = foldl (\<lambda>a c. 10 * a + (of_char c - 48)) 0 s"

text \<open>The effects a run has added to the history of a world.\<close>

definition newEvents :: "world \<Rightarrow> world \<Rightarrow> event list" where
  "newEvents w w' = drop (length (trace w)) (trace w')"

text \<open>
  An engine invocation completes when its promise settles, with a result or with an
  error; the effects of the process itself always complete.
\<close>

fun completes :: "engine \<Rightarrow> event \<Rightarrow> bool" where
  "completes E (Probe p) = (ffprobe E p \<noteq> Pending)"
| "completes E (Run cmd) = (run E cmd \<noteq> Pending)"
| "completes E _ = True"

text \<open>The paths an effect creates or overwrites, and those of a history.\<close>

fun targets :: "event \<Rightarrow> string list" where
  "targets (Run cmd) = [outputFile cmd]"
| "targets (WriteFile p content) = [p]"
| "targets _ = []"

definition writtenPaths :: "event list \<Rightarrow> string set" where
  "writtenPaths evs = set (concat (map targets evs))"

text \<open>The error with which an engine invocation ended, when it ended with one.\<close>

fun engineError :: "engine \<Rightarrow> event \<Rightarrow> string option" where
  "engineError E (Probe p) = (case ffprobe E p of Rejected e \<Rightarrow> Some e | _ \<Rightarrow> None)"
| "engineError E (Run cmd) = (case run E cmd of Rejected e \<Rightarrow> Some e | _ \<Rightarrow> None)"
| "engineError E _ = None"

section \<open>Example inputs\<close>

definition hdStream :: stream where
  "hdStream = \<lparr>codec_type = ''video'', codec_name = ''h264'', width = Some 1920, height = Some 1080\<rparr>"

definition uhdStream :: stream where
  "uhdStream = \<lparr>codec_type = ''video'', codec_name = ''h264'', width = Some 3840, height = Some 2160\<rparr>"

definition wideStream :: stream where
  "wideStream = \<lparr>codec_type = ''video'', codec_name = ''h264'', width = Some 4096, height = Some 2160\<rparr>"

definition vp6WideStream :: stream where
  "vp6WideStream = \<lparr>codec_type = ''video'', codec_name = ''vp6'', width = Some 4096, height = Some 2160\<rparr>"

definition aacStream :: stream where
  "aacStream = \<lparr>codec_type = ''audio'', codec_name = ''aac'', width = None, height = None\<rparr>"

definition pcmStream :: stream where
  "pcmStream = \<lparr>codec_type = ''audio'', codec_name = ''pcm_s16le'', width = None, height = None\<rparr>"

definition clipA :: upload where
  "clipA = \<lparr>path = ''/srv/uploads/1700000000001-11.mp4'', originalname = ''beach.mp4''\<rparr>"

definition clipB :: upload where
  "clipB = \<lparr>path = ''/srv/uploads/1700000000002-22.mp4'', originalname = ''city.mp4''\<rparr>"

definition song :: upload where
  "song = \<lparr>path = ''/srv/uploads/1700000000003-33.mp3'', originalname = ''tune.mp3''\<rparr>"

definition world0 :: world where
  "world0 = \<lparr>files = {}, trace = []\<rparr>"

text \<open>An engine that answers every probe with \<open>r\<close> and whose runs all end well.\<close>

definition probing :: "metadata outcome \<Rightarrow> engine" where
  "probing r = \<lparr>ffprobe = (\<lambda>p. r), run = (\<lambda>c. Resolved ())\<rparr>"

definition jingle :: upload where
  "jingle = \<lparr>path = ''/srv/uploads/1700000000004-44.mp3'', originalname = ''jingle.mp3''\<rparr>"

text \<open>All runs end well.\<close>

definition allRunsOk :: "ffmpeg_cmd \<Rightarrow> unit outcome" where
  "allRunsOk cmd = Resolved ()"

text \<open>The runs that write \<open>target\<close> exit with an error, all others end well.\<close>

definition failingOn :: "string \<Rightarrow> ffmpeg_cmd \<Rightarrow> unit outcome" where
  "failingOn target cmd =
     (if outputFile cmd = target then Rejected ''ffmpeg exited with code 1'' else Resolved ())"

text \<open>
  An engine that finds a video and an audio stream in every file but \<open>song\<close>, where it
  finds an audio stream only, and whose runs end as \<open>r\<close> says.
\<close>

definition studio :: "(ffmpeg_cmd \<Rightarrow> unit outcome) \<Rightarrow> engine" where
  "studio r =
     \<lparr>ffprobe = (\<lambda>p. if p = path song then Resolved \<lparr>streams = [aacStream]\<rparr>
                      else Resolved \<lparr>streams = [hdStream, aacStream]\<rparr>),
      run = r\<rparr>"

text \<open>The same engine with another answer for one path.\<close>

definition withProbe :: "string \<Rightarrow> metadata outcome \<Rightarrow> engine \<Rightarrow> engine" where
  "withProbe p r E = E\<lparr>ffprobe := (ffprobe E)(p := r)\<rparr>"

text \<open>A request with two videos and one music file, and the world after multer stored them.\<close>

definition threeParts :: "(string \<times> upload) list" where
  "threeParts = [(''videos'', clipA), (''videos'', clipB), (''music'', song)]"

definition uploaded :: world where
  "uploaded = \<lparr>files = {path clipA, path clipB, path song}, trace = []\<rparr>"

section \<open>Lemmas about the stages\<close>

lemma emit_emits: "emit ev w = emits [ev] w" by (simp add: emit_def emits_def)
lemma emits_Nil [simp]: "emits [] w = w" by (simp add: emits_def)
lemma emits_emits [simp]: "emits ys (emits xs w) = emits (xs @ ys) w" by (simp add: emits_def)
lemma trace_emits [simp]: "trace (emits xs w) = trace w @ xs" by (simp add: emits_def)
lemma files_emits [simp]: "files (emits xs w) = files w" by (simp add: emits_def)
lemma emits_files_update [simp]: "emits xs (w\<lparr>files := F\<rparr>) = (emits xs w)\<lparr>files := F\<rparr>" by (simp add: emits_def)

lemma rethrow_id: "try_catch m (\<lambda>err w'. (Rejected err, w')) = m"
proof (cases m)
  case (Pair r w)
  then show ?thesis by (cases r) simp_all
qed

lemma validateVideo_eq: "validateVideo E file w = (videoVerdict E file, emits [Probe (path file)] w)"
  by (cases "ffprobe E (path file)")
     (simp_all add: validateVideo_def rethrow_id getVideoMetadata_def videoVerdict_def emit_emits)

lemma validateMusic_eq: "validateMusic E file w = (musicVerdict E file, emits [Probe (path file)] w)"
  by (cases "ffprobe E (path file)")
     (simp_all add: validateMusic_def rethrow_id getVideoMetadata_def musicVerdict_def emit_emits)

lemma validateVideos_all_ok:
  "list_all (\<lambda>f. videoVerdict E f = Resolved ()) fs \<Longrightarrow>
   validateVideos E fs w = (Resolved (), emits (map (\<lambda>f. Probe (path f)) fs) w)"
  by (induction fs arbitrary: w) (simp_all add: validateVideo_eq)

lemma validateVideos_first_bad:
  "list_all (\<lambda>f. videoVerdict E f = Resolved ()) pre \<Longrightarrow> videoVerdict E bad \<noteq> Resolved () \<Longrightarrow>
   validateVideos E (pre @ bad # post) w =
     (videoVerdict E bad, emits (map (\<lambda>f. Probe (path f)) (pre @ [bad])) w)"
proof (induction pre arbitrary: w)
  case Nil
  then show ?case by (cases "videoVerdict E bad") (simp_all add: validateVideo_eq)
next
  case (Cons f pre)
  then show ?case by (simp add: validateVideo_eq)
qed

text \<open>Every list passes a test entirely or splits at its first failure.\<close>

lemma first_failure_cases:
  "list_all P xs \<or> (\<exists>pre bad post. xs = pre @ bad # post \<and> list_all P pre \<and> \<not> P bad)"
proof (cases "list_all P xs")
  case True then show ?thesis by simp
next
  case False
  then have "\<exists>x\<in>set xs. \<not> P x" by (simp add: list_all_iff)
  then obtain pre bad post where "xs = pre @ bad # post" "\<not> P bad" "\<forall>y\<in>set pre. \<not> \<not> P y"
    using split_list_first_prop[of xs "\<lambda>x. \<not> P x"] by blast
  then show ?thesis by (auto simp: list_all_iff)
qed

lemma runFfmpeg_ok: "run E cmd = Resolved () \<Longrightarrow>
  runFfmpeg E cmd w = (Resolved (), (emits [Run cmd] w)\<lparr>files := insert (outputFile cmd) (files w)\<rparr>)"
  by (simp add: runFfmpeg_def emit_emits)

lemma processVideo_encodeCmd:
  "processVideo E (path (vs ! i)) (processedPath cwd i) w = runFfmpeg E (encodeCmd cwd vs i) w"
  by (simp add: processVideo_def encodeCmd_def)

lemma outputFile_encodeCmd [simp]: "outputFile (encodeCmd cwd vs i) = processedPath cwd i"
  by (simp add: encodeCmd_def processVideoCmd_def)

lemma processLoop_all_ok:
  "\<forall>j. i \<le> j \<and> j < length vs \<longrightarrow> run E (encodeCmd cwd vs j) = Resolved () \<Longrightarrow>
   processLoop E cwd vs i acc w =
     (Resolved (acc @ map (processedPath cwd) [i..<length vs]),
      (emits (map (\<lambda>j. Run (encodeCmd cwd vs j)) [i..<length vs]) w)
        \<lparr>files := files w \<union> processedPath cwd ` {i..<length vs}\<rparr>)"
proof (induction E cwd vs i acc w rule: processLoop.induct)
  case (1 E cwd vs i acc w)
  show ?case
  proof (cases "i < length vs")
    case False
    then show ?thesis by (simp add: processLoop.simps[of E cwd vs i])
  next
    case True
    have r: "run E (encodeCmd cwd vs i) = Resolved ()" using 1(2) True by simp
    have ih: "\<And>w'. processLoop E cwd vs (Suc i) (acc @ [processedPath cwd i]) w' =
       (Resolved ((acc @ [processedPath cwd i]) @ map (processedPath cwd) [Suc i..<length vs]),
        (emits (map (\<lambda>j. Run (encodeCmd cwd vs j)) [Suc i..<length vs]) w')
           \<lparr>files := files w' \<union> processedPath cwd ` {Suc i..<length vs}\<rparr>)"
      using 1(1)[OF True] 1(2) by simp
    have l: "[i..<length vs] = i # [i + 1..<length vs]" using True by (simp add: upt_conv_Cons)
    have s: "{i..<length vs} = insert i {i + 1..<length vs}" using True by auto
    show ?thesis
      using r True
      by (simp add: processLoop.simps[of E cwd vs i] processVideo_encodeCmd runFfmpeg_ok ih l s)
  qed
qed

lemma await_fail: "r \<noteq> Resolved x \<Longrightarrow> await ((r :: unit outcome), w) k = (failAs r, w)"
  by (cases r) simp_all

lemma await_failAs [simp]: "await (failAs r, w) k = (failAs r, w)"
  by (cases r) simp_all

lemma emits_files_same [simp]: "(emits xs w)\<lparr>files := files w\<rparr> = emits xs w"
  by (simp add: emits_def)

lemma try_catch_failAs:
  "try_catch (failAs r, w) (\<lambda>error w. (Rejected (mergeFailedMsg error), w)) = (mergeFailure r, w)"
  by (cases r) simp_all

lemma runFfmpeg_fail: "run E cmd \<noteq> Resolved () \<Longrightarrow>
  runFfmpeg E cmd w = (failAs (run E cmd), emits [Run cmd] w)"
  by (cases "run E cmd") (simp_all add: runFfmpeg_def emit_emits)

lemma processLoop_first_bad:
  "i \<le> k \<Longrightarrow> k < length vs \<Longrightarrow>
   \<forall>j. i \<le> j \<and> j < k \<longrightarrow> run E (encodeCmd cwd vs j) = Resolved () \<Longrightarrow>
   run E (encodeCmd cwd vs k) \<noteq> Resolved () \<Longrightarrow>
   processLoop E cwd vs i acc w =
     (failAs (run E (encodeCmd cwd vs k)),
      (emits (map (\<lambda>j. Run (encodeCmd cwd vs j)) [i..<Suc k]) w)
        \<lparr>files := files w \<union> processedPath cwd ` {i..<k}\<rparr>)"
proof (induction E cwd vs i acc w rule: processLoop.induct)
  case (1 E cwd vs i acc w)
  have lt: "i < length vs" using 1(2,3) by simp
  show ?case
  proof (cases "i = k")
    case True
    then show ?thesis
      using 1(5) lt
      by (simp add: processLoop.simps[of E cwd vs k] processVideo_encodeCmd runFfmpeg_fail await_fail)
  next
    case False
    then have ik: "i < k" using 1(2) by simp
    have r: "run E (encodeCmd cwd vs i) = Resolved ()" using 1(4) ik by simp
    have ih: "\<And>w'. processLoop E cwd vs (Suc i) (acc @ [processedPath cwd i]) w' =
       (failAs (run E (encodeCmd cwd vs k)),
        (emits (map (\<lambda>j. Run (encodeCmd cwd vs j)) [Suc i..<Suc k]) w')
           \<lparr>files := files w' \<union> processedPath cwd ` {Suc i..<k}\<rparr>)"
      using 1(1)[OF lt] 1(3,4,5) ik by simp
    have l: "[i..<Suc k] = i # [Suc i..<Suc k]" using ik by (simp add: upt_conv_Cons)
    have s: "{i..<k} = insert i {Suc i..<k}" using ik by auto
    show ?thesis
      using r lt
      by (simp add: processLoop.simps[of E cwd vs i] processVideo_encodeCmd runFfmpeg_ok ih l s
               del: upt_Suc)
  qed
qed

lemma fold_unlinkLogged:
  "fold unlinkLogged ps w = (emits (map Unlink ps) w)\<lparr>files := files w - set ps\<rparr>"
proof (induction ps arbitrary: w)
  case Nil
  then show ?case by simp
next
  case (Cons p ps)
  have s: "files w - {p} - set ps = files w - insert p (set ps)" by auto
  have "fold unlinkLogged (p # ps) w = fold unlinkLogged ps (unlinkLogged p w)" by simp
  also have "\<dots> = (emits (map Unlink ps) (unlinkLogged p w))\<lparr>files := files (unlinkLogged p w) - set ps\<rparr>"
    by (rule Cons)
  also have "\<dots> = (emits (map Unlink (p # ps)) w)\<lparr>files := files w - set (p # ps)\<rparr>"
    by (simp add: unlinkLogged_def emit_emits s)
  finally show ?case .
qed

lemma merge_video_fail:
  assumes "allVideosPass E pre" "videoVerdict E bad \<noteq> Resolved ()"
  shows "mergeVideosWithMusic E cwd (pre @ bad # post) m w =
     (mergeFailure (videoVerdict E bad), emits (setupEvents cwd @ probeEvents (pre @ [bad])) w)"
  using assms
  by (simp add: mergeVideosWithMusic_def ensureDirectories_def validateVideos_first_bad
        allVideosPass_def await_fail try_catch_failAs setupEvents_def probeEvents_def)

lemma merge_music_fail:
  assumes "allVideosPass E vs" "musicVerdict E m \<noteq> Resolved ()"
  shows "mergeVideosWithMusic E cwd vs m w =
     (mergeFailure (musicVerdict E m), emits (setupEvents cwd @ probeEvents (vs @ [m])) w)"
  using assms
  by (simp add: mergeVideosWithMusic_def ensureDirectories_def validateVideos_all_ok
        validateMusic_eq
        allVideosPass_def await_fail try_catch_failAs setupEvents_def probeEvents_def)

lemma encodesOk_iff: "encodesOk E cwd vs k = (\<forall>j. 0 \<le> j \<and> j < k \<longrightarrow> run E (encodeCmd cwd vs j) = Resolved ())"
  by (auto simp: encodesOk_def list_all_iff)

lemma files_update_cong: "F = G \<Longrightarrow> (w :: world)\<lparr>files := F\<rparr> = w\<lparr>files := G\<rparr>"
  by simp

lemma outputFile_concatCmd [simp]: "outputFile (concatCmd cwd) = concatenatedPath cwd"
  by (simp add: concatCmd_def)

lemma outputFile_muxCmd [simp]: "outputFile (muxCmd cwd m) = outputPath cwd"
  by (simp add: muxCmd_def)

lemma merge_encode_fail:
  assumes "allVideosPass E vs" "musicVerdict E m = Resolved ()" "k < length vs"
    "encodesOk E cwd vs k" "run E (encodeCmd cwd vs k) \<noteq> Resolved ()"
  shows "mergeVideosWithMusic E cwd vs m w =
     (mergeFailure (run E (encodeCmd cwd vs k)),
      (emits (validationEvents cwd vs m @ encodeEvents cwd vs (Suc k)) w)
        \<lparr>files := files w \<union> processedPath cwd ` {0..<k}\<rparr>)"
proof -
  have loop: "\<And>w'. processLoop E cwd vs 0 [] w' =
     (failAs (run E (encodeCmd cwd vs k)),
      (emits (map (\<lambda>j. Run (encodeCmd cwd vs j)) [0..<Suc k]) w')
        \<lparr>files := files w' \<union> processedPath cwd ` {0..<k}\<rparr>)"
    using assms(3,4,5) by (intro processLoop_first_bad) (simp_all add: encodesOk_iff)
  show ?thesis
    using assms(1,2)
    by (simp add: mergeVideosWithMusic_def ensureDirectories_def validateVideos_all_ok
        validateMusic_eq loop allVideosPass_def try_catch_failAs validationEvents_def
        setupEvents_def probeEvents_def encodeEvents_def del: upt_Suc)
qed

lemma loop_ok:
  assumes "encodesOk E cwd vs (length vs)"
  shows "processLoop E cwd vs 0 [] w' =
     (Resolved (map (processedPath cwd) [0..<length vs]),
      (emits (encodeEvents cwd vs (length vs)) w')
        \<lparr>files := files w' \<union> processedPath cwd ` {0..<length vs}\<rparr>)"
  using processLoop_all_ok[of 0 vs E cwd "[]" w'] assms
  by (simp add: encodesOk_iff encodeEvents_def)

lemma merge_concat_fail:
  assumes "allVideosPass E vs" "musicVerdict E m = Resolved ()"
    "encodesOk E cwd vs (length vs)" "run E (concatCmd cwd) \<noteq> Resolved ()"
  shows "mergeVideosWithMusic E cwd vs m w =
     (mergeFailure (run E (concatCmd cwd)),
      (emits (validationEvents cwd vs m @ encodeEvents cwd vs (length vs)
              @ [manifestEvent cwd (length vs), Run (concatCmd cwd)]) w)
        \<lparr>files := insert (listPath cwd) (files w \<union> processedPath cwd ` {0..<length vs})\<rparr>)"
  using assms(1,2,4)
  by (simp add: mergeVideosWithMusic_def ensureDirectories_def validateVideos_all_ok
        validateMusic_eq loop_ok[OF assms(3)] allVideosPass_def try_catch_failAs validationEvents_def
        setupEvents_def probeEvents_def writeFile_def emit_emits runFfmpeg_fail manifestEvent_def)

lemma merge_mux_fail:
  assumes "allVideosPass E vs" "musicVerdict E m = Resolved ()"
    "encodesOk E cwd vs (length vs)" "run E (concatCmd cwd) = Resolved ()"
    "run E (muxCmd cwd m) \<noteq> Resolved ()"
  shows "mergeVideosWithMusic E cwd vs m w =
     (mergeFailure (run E (muxCmd cwd m)),
      (emits (validationEvents cwd vs m @ encodeEvents cwd vs (length vs)
              @ [manifestEvent cwd (length vs), Run (concatCmd cwd), Run (muxCmd cwd m)]) w)
        \<lparr>files := insert (concatenatedPath cwd)
            (insert (listPath cwd) (files w \<union> processedPath cwd ` {0..<length vs}))\<rparr>)"
  using assms(1,2,4,5)
  by (simp add: mergeVideosWithMusic_def ensureDirectories_def validateVideos_all_ok
        validateMusic_eq loop_ok[OF assms(3)] allVideosPass_def try_catch_failAs validationEvents_def
        setupEvents_def probeEvents_def writeFile_def emit_emits runFfmpeg_fail runFfmpeg_ok
        manifestEvent_def)

lemma merge_ok:
  assumes "allVideosPass E vs" "musicVerdict E m = Resolved ()"
    "encodesOk E cwd vs (length vs)" "run E (concatCmd cwd) = Resolved ()"
    "run E (muxCmd cwd m) = Resolved ()"
  shows "mergeVideosWithMusic E cwd vs m w =
     (Resolved (outputPath cwd),
      (emits (validationEvents cwd vs m @ encodeEvents cwd vs (length vs)
              @ [manifestEvent cwd (length vs), Run (concatCmd cwd), Run (muxCmd cwd m)]
              @ cleanupEvents cwd (length vs)) w)
        \<lparr>files := insert (outputPath cwd) (files w)
             - (processedPath cwd ` {0..<length vs} \<union> {listPath cwd, concatenatedPath cwd})\<rparr>)"
  using assms(1,2,4,5)
  apply (simp add: mergeVideosWithMusic_def ensureDirectories_def validateVideos_all_ok
        validateMusic_eq loop_ok[OF assms(3)] allVideosPass_def validationEvents_def
        setupEvents_def probeEvents_def writeFile_def emit_emits runFfmpeg_ok
        manifestEvent_def unlinkAll_def fold_unlinkLogged cleanupEvents_def unlinkLogged_def)
  apply (rule files_update_cong)
  apply auto
  done

lemma upt_split_first:
  assumes "[0..<n] = pre @ k # post"
  shows "pre = [0..<k] \<and> k < n"
proof -
  have len: "length pre < n" using arg_cong[OF assms, of length] by simp
  have "[0..<n] ! length pre = k" using assms by simp
  then have k: "k = length pre" using len by simp
  have "take (length pre) [0..<n] = pre" using assms by simp
  then have "pre = [0..<length pre]" using len by simp
  then show ?thesis using k len by simp
qed

lemma encode_cases:
  "encodesOk E cwd vs n \<or>
   (\<exists>k < n. encodesOk E cwd vs k \<and> run E (encodeCmd cwd vs k) \<noteq> Resolved ())"
proof -
  let ?P = "\<lambda>j. run E (encodeCmd cwd vs j) = Resolved ()"
  from first_failure_cases[of ?P "[0..<n]"]
  show ?thesis
  proof
    assume "list_all ?P [0..<n]"
    then show ?thesis by (simp add: encodesOk_def)
  next
    assume "\<exists>pre bad post. [0..<n] = pre @ bad # post \<and> list_all ?P pre \<and> \<not> ?P bad"
    then obtain pre k post where s: "[0..<n] = pre @ k # post" and p: "list_all ?P pre" and b: "\<not> ?P k"
      by blast
    from upt_split_first[OF s] have "pre = [0..<k]" "k < n" by simp_all
    with p b show ?thesis by (auto simp: encodesOk_def)
  qed
qed

text \<open>How far a job gets: the six ways a run of \<^verbatim>\<open>mergeVideosWithMusic\<close> can go.\<close>

lemma merge_cases:
  "(\<exists>pre bad post. vs = pre @ bad # post \<and> allVideosPass E pre \<and> videoVerdict E bad \<noteq> Resolved ())
   \<or> (allVideosPass E vs \<and> musicVerdict E m \<noteq> Resolved ())
   \<or> (allVideosPass E vs \<and> musicVerdict E m = Resolved ()
        \<and> (\<exists>k < length vs. encodesOk E cwd vs k \<and> run E (encodeCmd cwd vs k) \<noteq> Resolved ()))
   \<or> (allVideosPass E vs \<and> musicVerdict E m = Resolved () \<and> encodesOk E cwd vs (length vs)
        \<and> run E (concatCmd cwd) \<noteq> Resolved ())
   \<or> (allVideosPass E vs \<and> musicVerdict E m = Resolved () \<and> encodesOk E cwd vs (length vs)
        \<and> run E (concatCmd cwd) = Resolved () \<and> run E (muxCmd cwd m) \<noteq> Resolved ())
   \<or> (allVideosPass E vs \<and> musicVerdict E m = Resolved () \<and> encodesOk E cwd vs (length vs)
        \<and> run E (concatCmd cwd) = Resolved () \<and> run E (muxCmd cwd m) = Resolved ())"
  using first_failure_cases[of "\<lambda>f. videoVerdict E f = Resolved ()" vs]
        encode_cases[of E cwd vs "length vs"]
  unfolding allVideosPass_def by blast

lemma mergeFailure_not_Resolved [simp]: "mergeFailure r \<noteq> Resolved x"
  by (cases r) simp_all

lemma merge_Resolved_iff:
  "fst (mergeVideosWithMusic E cwd vs m w) = Resolved p \<longleftrightarrow>
     p = outputPath cwd \<and> allVideosPass E vs \<and> musicVerdict E m = Resolved ()
     \<and> encodesOk E cwd vs (length vs) \<and> run E (concatCmd cwd) = Resolved ()
     \<and> run E (muxCmd cwd m) = Resolved ()"
  using merge_cases[of vs E m cwd]
  apply (elim disjE exE conjE)
  apply (simp_all add: merge_video_fail merge_music_fail merge_encode_fail merge_concat_fail merge_mux_fail merge_ok)
  apply (auto simp: allVideosPass_def encodesOk_iff)
  done

lemma digit_value: "d < 10 \<Longrightarrow> (of_char (digit_char d) :: nat) - 48 = d"
  by (simp add: digit_char_def)

lemma digitsValue_string_of_nat: "digitsValue (string_of_nat n) = n"
proof (induction n rule: string_of_nat.induct)
  case (1 n)
  show ?case
  proof (cases "n < 10")
    case True
    then show ?thesis by (simp add: string_of_nat.simps[of n] digitsValue_def digit_value)
  next
    case False
    have "digitsValue (string_of_nat n) = 10 * digitsValue (string_of_nat (n div 10)) + (of_char (digit_char (n mod 10)) - 48)"
      using False by (simp add: string_of_nat.simps[of n] digitsValue_def)
    also have "\<dots> = 10 * (n div 10) + n mod 10"
      using 1[OF False] by (simp add: digit_value)
    finally show ?thesis by simp
  qed
qed

lemma string_of_nat_inj: "string_of_nat a = string_of_nat b \<Longrightarrow> a = b"
  by (metis digitsValue_string_of_nat)

lemma processedPath_inj: "processedPath cwd i = processedPath cwd j \<Longrightarrow> i = j"
  by (simp add: processedPath_def path_join_def string_of_nat_inj)


lemma find_first:
  "list_all (\<lambda>x. \<not> P x) pre \<Longrightarrow> P s \<Longrightarrow> find P (pre @ s # post) = Some s"
  by (induction pre) simp_all

lemma newEvents_emits [simp]: "newEvents w (emits evs w) = evs"
  by (simp add: newEvents_def)

lemma newEvents_emits_files [simp]: "newEvents w ((emits evs w)\<lparr>files := F\<rparr>) = evs"
  by (simp add: newEvents_def)

lemma trace_emits_files [simp]: "trace ((emits evs w)\<lparr>files := F\<rparr>) = trace w @ evs"
  by simp

lemma checkVideoStreams_not_Pending [simp]: "checkVideoStreams f md \<noteq> Pending"
  by (simp add: checkVideoStreams_def split: option.splits)

lemma checkAudioStreams_not_Pending [simp]: "checkAudioStreams f md \<noteq> Pending"
  by (simp add: checkAudioStreams_def split: option.splits)

lemma videoVerdict_Pending: "videoVerdict E f = Pending \<longleftrightarrow> ffprobe E (path f) = Pending"
  by (simp add: videoVerdict_def split: outcome.splits)

lemma musicVerdict_Pending: "musicVerdict E f = Pending \<longleftrightarrow> ffprobe E (path f) = Pending"
  by (simp add: musicVerdict_def split: outcome.splits)

lemma completes_setup [simp]: "list_all (completes E) (setupEvents cwd)"
  by (simp add: setupEvents_def)

lemma completes_probes:
  "allVideosPass E vs \<Longrightarrow> list_all (completes E) (probeEvents vs)"
  by (induction vs) (auto simp: allVideosPass_def probeEvents_def videoVerdict_def split: outcome.splits)

lemma completes_encodes:
  "encodesOk E cwd vs k \<Longrightarrow> list_all (completes E) (encodeEvents cwd vs k)"
  by (simp add: encodesOk_def encodeEvents_def list_all_iff)

lemma completes_cleanup [simp]: "list_all (completes E) (cleanupEvents cwd n)"
  by (simp add: cleanupEvents_def list_all_iff)

lemma completes_manifest [simp]: "completes E (manifestEvent cwd n)"
  by (simp add: manifestEvent_def)

lemma mergeFailure_Pending:
  "(r :: unit outcome) \<noteq> Resolved () \<Longrightarrow> mergeFailure r = Pending \<longleftrightarrow> r = Pending"
  by (cases r) simp_all

lemma probeEvents_append [simp]: "probeEvents (xs @ ys) = probeEvents xs @ probeEvents ys"
  by (simp add: probeEvents_def)

lemma probeEvents_single [simp]: "probeEvents [f] = [Probe (path f)]"
  by (simp add: probeEvents_def)

lemma encodeEvents_Suc: "encodeEvents cwd vs (Suc k) = encodeEvents cwd vs k @ [Run (encodeCmd cwd vs k)]"
  by (simp add: encodeEvents_def)

lemma writtenPaths_append [simp]: "writtenPaths (xs @ ys) = writtenPaths xs \<union> writtenPaths ys"
  by (simp add: writtenPaths_def)

lemma writtenPaths_Cons [simp]: "writtenPaths (ev # evs) = set (targets ev) \<union> writtenPaths evs"
  by (simp add: writtenPaths_def)

lemma writtenPaths_Nil [simp]: "writtenPaths [] = {}"
  by (simp add: writtenPaths_def)

lemma writtenPaths_setup [simp]: "writtenPaths (setupEvents cwd) = {}"
  by (simp add: setupEvents_def)

lemma writtenPaths_probes [simp]: "writtenPaths (probeEvents fs) = {}"
  by (induction fs) (simp_all add: probeEvents_def)

lemma writtenPaths_encodes [simp]: "writtenPaths (encodeEvents cwd vs k) = processedPath cwd ` {0..<k}"
  by (induction k) (auto simp: encodeEvents_Suc encodeEvents_def atLeast0_lessThan_Suc)

lemma writtenPaths_cleanup [simp]: "writtenPaths (cleanupEvents cwd n) = {}"
  by (simp add: cleanupEvents_def writtenPaths_def)

lemma completed_job_paths:
  assumes "fst (mergeVideosWithMusic E cwd vs m w) = Resolved out"
  shows "out = outputPath cwd
     \<and> writtenPaths (newEvents w (snd (mergeVideosWithMusic E cwd vs m w)))
         = processedPath cwd ` {0..<length vs} \<union> {listPath cwd, concatenatedPath cwd, outputPath cwd}"
proof -
  from assms have ok: "out = outputPath cwd" "allVideosPass E vs" "musicVerdict E m = Resolved ()"
     "encodesOk E cwd vs (length vs)" "run E (concatCmd cwd) = Resolved ()"
     "run E (muxCmd cwd m) = Resolved ()"
    by (simp_all add: merge_Resolved_iff)
  show ?thesis
    by (auto simp add: merge_ok[OF ok(2-6)] ok(1) validationEvents_def manifestEvent_def)
qed

lemma encodeEvents_explicit:
  "encodeEvents cwd vs k = map (\<lambda>i. Run (processVideoCmd (path (vs ! i)) (processedPath cwd i))) [0..<k]"
  by (simp add: encodeEvents_def encodeCmd_def)



lemma names_noVideoStream: "sublist (originalname file) (noVideoStreamMsg file)"
  unfolding noVideoStreamMsg_def by (rule sublist_append_leftI)

lemma names_unsupportedVideoCodec: "sublist (originalname file) (unsupportedVideoCodecMsg file)"
  unfolding unsupportedVideoCodecMsg_def by (rule sublist_appendI)

lemma names_resolutionTooHigh: "sublist (originalname file) (resolutionTooHighMsg file)"
  unfolding resolutionTooHighMsg_def by (rule sublist_appendI)

lemma names_noAudioStream: "sublist (originalname file) (noAudioStreamMsg file)"
  unfolding noAudioStreamMsg_def by (rule sublist_append_leftI)

lemma names_unsupportedAudioCodec: "sublist (originalname file) (unsupportedAudioCodecMsg file)"
  unfolding unsupportedAudioCodecMsg_def by (rule sublist_appendI)

lemma checkVideoStreams_range:
  "checkVideoStreams file md = Resolved ()
   \<or> checkVideoStreams file md = Rejected (noVideoStreamMsg file)
   \<or> checkVideoStreams file md = Rejected (unsupportedVideoCodecMsg file)
   \<or> checkVideoStreams file md = Rejected (resolutionTooHighMsg file)"
  by (simp add: checkVideoStreams_def split: option.splits)

lemma checkAudioStreams_range:
  "checkAudioStreams file md = Resolved ()
   \<or> checkAudioStreams file md = Rejected (noAudioStreamMsg file)
   \<or> checkAudioStreams file md = Rejected (unsupportedAudioCodecMsg file)"
  by (simp add: checkAudioStreams_def split: option.splits)

lemma checkVideoStreams_names:
  assumes "checkVideoStreams file md = Rejected e"
  shows "sublist (originalname file) e"
  using checkVideoStreams_range[of "file" md] assms
    names_noVideoStream[of "file"] names_unsupportedVideoCodec[of "file"]
    names_resolutionTooHigh[of "file"]
  by (elim disjE) simp_all

lemma checkAudioStreams_names:
  assumes "checkAudioStreams file md = Rejected e"
  shows "sublist (originalname file) e"
  using checkAudioStreams_range[of "file" md] assms
    names_noAudioStream[of "file"] names_unsupportedAudioCodec[of "file"]
  by (elim disjE) simp_all

lemma sublist_mergeFailedMsg: "sublist n e \<Longrightarrow> sublist n (mergeFailedMsg e)"
  unfolding mergeFailedMsg_def sublist_def by (metis append.assoc)

lemma upload_fields_Inr:
  assumes "upload_fields mergeFields parts = Inr reqFiles"
  shows "length (filesOfField ''videos'' parts) \<le> 20"
    and "length (filesOfField ''music'' parts) \<le> 1"
    and "map_of reqFiles ''videos'' =
           (if filesOfField ''videos'' parts = [] then None else Some (filesOfField ''videos'' parts))"
    and "map_of reqFiles ''music'' =
           (if filesOfField ''music'' parts = [] then None else Some (filesOfField ''music'' parts))"
  using assms
  by (auto simp: upload_fields_def mergeFields_def split: if_splits)

lemma upload_fields_too_many:
  assumes "20 < length (filesOfField ''videos'' parts)"
  shows "upload_fields mergeFields parts = Inl ''Unexpected field''"
  using assms by (simp add: upload_fields_def mergeFields_def)

lemma failAs_not_Resolved [simp]: "failAs r \<noteq> Resolved x"
  by (cases r) simp_all

lemma processLoop_Resolved:
  assumes "fst (processLoop E cwd vs 0 [] w) = Resolved ps"
  shows "encodesOk E cwd vs (length vs) \<and> ps = map (processedPath cwd) [0..<length vs]"
  using encode_cases[of E cwd vs "length vs"]
proof
  assume ok: "encodesOk E cwd vs (length vs)"
  with assms show ?thesis by (simp add: loop_ok)
next
  assume "\<exists>k<length vs. encodesOk E cwd vs k \<and> run E (encodeCmd cwd vs k) \<noteq> Resolved ()"
  then obtain k where k: "k < length vs" "encodesOk E cwd vs k" "run E (encodeCmd cwd vs k) \<noteq> Resolved ()"
    by blast
  have "processLoop E cwd vs 0 [] w =
     (failAs (run E (encodeCmd cwd vs k)),
      (emits (map (\<lambda>j. Run (encodeCmd cwd vs j)) [0..<Suc k]) w)
        \<lparr>files := files w \<union> processedPath cwd ` {0..<k}\<rparr>)"
    using k by (intro processLoop_first_bad) (simp_all add: encodesOk_iff)
  with assms show ?thesis by simp
qed

lemma codec_msg_not_resolution_msg: "unsupportedVideoCodecMsg f \<noteq> resolutionTooHighMsg f"
  by (simp add: unsupportedVideoCodecMsg_def resolutionTooHighMsg_def)

lemma processLoop_shape:
  "\<exists>k\<le>length vs.
      newEvents w (snd (processLoop E cwd vs 0 [] w)) = encodeEvents cwd vs k
      \<and> (\<forall>ps. fst (processLoop E cwd vs 0 [] w) = Resolved ps \<longrightarrow> k = length vs)"
  using encode_cases[of E cwd vs "length vs"]
proof
  assume ok: "encodesOk E cwd vs (length vs)"
  show ?thesis
    by (rule exI[of _ "length vs"]) (simp add: loop_ok[OF ok])
next
  assume "\<exists>k<length vs. encodesOk E cwd vs k \<and> run E (encodeCmd cwd vs k) \<noteq> Resolved ()"
  then obtain k where k: "k < length vs" "encodesOk E cwd vs k" "run E (encodeCmd cwd vs k) \<noteq> Resolved ()"
    by blast
  have l: "processLoop E cwd vs 0 [] w =
     (failAs (run E (encodeCmd cwd vs k)),
      (emits (map (\<lambda>j. Run (encodeCmd cwd vs j)) [0..<Suc k]) w)
        \<lparr>files := files w \<union> processedPath cwd ` {0..<k}\<rparr>)"
    using k by (intro processLoop_first_bad) (simp_all add: encodesOk_iff)
  show ?thesis
    using k(1) by (intro exI[of _ "Suc k"]) (simp add: l encodeEvents_def del: upt_Suc)
qed

lemma processLoop_Resolved_files:
  assumes "fst (processLoop E cwd vs 0 [] w) = Resolved ps"
  shows "files (snd (processLoop E cwd vs 0 [] w)) = files w \<union> processedPath cwd ` {0..<length vs}"
proof -
  have ok: "encodesOk E cwd vs (length vs)" using processLoop_Resolved[OF assms] by simp
  show ?thesis by (simp add: loop_ok[OF ok])
qed

lemma writtenPaths_encodes_mono:
  "k \<le> n \<Longrightarrow> writtenPaths (encodeEvents cwd vs k) \<subseteq> processedPath cwd ` {0..<n}"
  by auto

lemma any_job_paths:
  "writtenPaths (newEvents w (snd (mergeVideosWithMusic E cwd vs m w)))
     \<subseteq> processedPath cwd ` {0..<length vs} \<union> {listPath cwd, concatenatedPath cwd, outputPath cwd}"
  using merge_cases[of vs E m cwd]
proof (elim disjE exE conjE)
  fix pre bad post
  assume "vs = pre @ bad # post" "allVideosPass E pre" "videoVerdict E bad \<noteq> Resolved ()"
  then show ?thesis by (simp add: merge_video_fail)
next
  assume "allVideosPass E vs" "musicVerdict E m \<noteq> Resolved ()"
  then show ?thesis by (simp add: merge_music_fail)
next
  fix k
  assume h: "allVideosPass E vs" "musicVerdict E m = Resolved ()" "k < length vs"
    "encodesOk E cwd vs k" "run E (encodeCmd cwd vs k) \<noteq> Resolved ()"
  have "writtenPaths (encodeEvents cwd vs (Suc k)) \<subseteq> processedPath cwd ` {0..<length vs}"
    using h(3) by (intro writtenPaths_encodes_mono) simp
  then show ?thesis
    by (simp add: merge_encode_fail[OF h] validationEvents_def del: writtenPaths_encodes) blast
next
  assume h: "allVideosPass E vs" "musicVerdict E m = Resolved ()"
    "encodesOk E cwd vs (length vs)" "run E (concatCmd cwd) \<noteq> Resolved ()"
  show ?thesis
    by (auto simp add: merge_concat_fail[OF h] validationEvents_def manifestEvent_def)
next
  assume h: "allVideosPass E vs" "musicVerdict E m = Resolved ()"
    "encodesOk E cwd vs (length vs)" "run E (concatCmd cwd) = Resolved ()"
    "run E (muxCmd cwd m) \<noteq> Resolved ()"
  show ?thesis
    by (auto simp add: merge_mux_fail[OF h] validationEvents_def manifestEvent_def)
next
  assume h: "allVideosPass E vs" "musicVerdict E m = Resolved ()"
    "encodesOk E cwd vs (length vs)" "run E (concatCmd cwd) = Resolved ()"
    "run E (muxCmd cwd m) = Resolved ()"
  show ?thesis
    by (auto simp add: merge_ok[OF h] validationEvents_def manifestEvent_def)
qed

lemma no_error_setup: "ev \<in> set (setupEvents cwd) \<Longrightarrow> engineError E ev = None"
  by (auto simp: setupEvents_def)

lemma no_error_probes:
  "allVideosPass E vs \<Longrightarrow> ev \<in> set (probeEvents vs) \<Longrightarrow> engineError E ev = None"
  by (auto simp: allVideosPass_def probeEvents_def list_all_iff videoVerdict_def split: outcome.splits)

lemma no_error_music:
  "musicVerdict E m = Resolved () \<Longrightarrow> engineError E (Probe (path m)) = None"
  by (auto simp: musicVerdict_def split: outcome.splits)

lemma no_error_encodes:
  "encodesOk E cwd vs k \<Longrightarrow> ev \<in> set (encodeEvents cwd vs k) \<Longrightarrow> engineError E ev = None"
  by (auto simp: encodesOk_def encodeEvents_def list_all_iff)

lemma no_error_cleanup: "ev \<in> set (cleanupEvents cwd n) \<Longrightarrow> engineError E ev = None"
  by (auto simp: cleanupEvents_def)

lemma no_error_manifest [simp]: "engineError E (manifestEvent cwd n) = None"
  by (simp add: manifestEvent_def)

lemma video_probe_error:
  "engineError E (Probe (path f)) = Some e \<Longrightarrow> mergeFailure (videoVerdict E f) = Rejected (mergeFailedMsg e)"
  by (auto simp: videoVerdict_def split: outcome.splits)

lemma music_probe_error:
  "engineError E (Probe (path f)) = Some e \<Longrightarrow> mergeFailure (musicVerdict E f) = Rejected (mergeFailedMsg e)"
  by (auto simp: musicVerdict_def split: outcome.splits)

lemma run_error:
  "engineError E (Run cmd) = Some e \<Longrightarrow> mergeFailure (run E cmd) = Rejected (mergeFailedMsg e)"
  by (auto split: outcome.splits)

lemma engine_error_fails:
  assumes "ev \<in> set (newEvents w (snd (mergeVideosWithMusic E cwd vs m w)))"
    and "engineError E ev = Some e"
  shows "fst (mergeVideosWithMusic E cwd vs m w) = Rejected (mergeFailedMsg e)"
  using merge_cases[of vs E m cwd]
proof (elim disjE exE conjE)
  fix pre bad post
  assume h: "vs = pre @ bad # post" "allVideosPass E pre" "videoVerdict E bad \<noteq> Resolved ()"
  have "ev \<in> set (setupEvents cwd) \<or> ev \<in> set (probeEvents pre) \<or> ev = Probe (path bad)"
    using assms(1) h by (auto simp: merge_video_fail)
  then have "ev = Probe (path bad)"
    using assms(2) no_error_setup[of ev cwd E] no_error_probes[OF h(2), of ev] by auto
  then show ?thesis using assms(2) h by (simp add: merge_video_fail video_probe_error)
next
  assume h: "allVideosPass E vs" "musicVerdict E m \<noteq> Resolved ()"
  have "ev \<in> set (setupEvents cwd) \<or> ev \<in> set (probeEvents vs) \<or> ev = Probe (path m)"
    using assms(1) h by (auto simp: merge_music_fail)
  then have "ev = Probe (path m)"
    using assms(2) no_error_setup[of ev cwd E] no_error_probes[OF h(1), of ev] by auto
  then show ?thesis using assms(2) h by (simp add: merge_music_fail music_probe_error)
next
  fix k
  assume h: "allVideosPass E vs" "musicVerdict E m = Resolved ()" "k < length vs"
    "encodesOk E cwd vs k" "run E (encodeCmd cwd vs k) \<noteq> Resolved ()"
  have "ev \<in> set (setupEvents cwd) \<or> ev \<in> set (probeEvents vs) \<or> ev = Probe (path m)
      \<or> ev \<in> set (encodeEvents cwd vs k) \<or> ev = Run (encodeCmd cwd vs k)"
    using assms(1) by (auto simp: merge_encode_fail[OF h] validationEvents_def encodeEvents_Suc)
  then have "ev = Run (encodeCmd cwd vs k)"
    using assms(2) no_error_setup[of ev cwd E] no_error_probes[OF h(1), of ev]
      no_error_music[OF h(2)] no_error_encodes[OF h(4), of ev] by auto
  then show ?thesis using assms(2) by (simp add: merge_encode_fail[OF h] run_error)
next
  assume h: "allVideosPass E vs" "musicVerdict E m = Resolved ()"
    "encodesOk E cwd vs (length vs)" "run E (concatCmd cwd) \<noteq> Resolved ()"
  have "ev \<in> set (setupEvents cwd) \<or> ev \<in> set (probeEvents vs) \<or> ev = Probe (path m)
      \<or> ev \<in> set (encodeEvents cwd vs (length vs)) \<or> ev = manifestEvent cwd (length vs)
      \<or> ev = Run (concatCmd cwd)"
    using assms(1) by (auto simp: merge_concat_fail[OF h] validationEvents_def)
  then have "ev = Run (concatCmd cwd)"
    using assms(2) no_error_setup[of ev cwd E] no_error_probes[OF h(1), of ev]
      no_error_music[OF h(2)] no_error_encodes[OF h(3), of ev] by auto
  then show ?thesis using assms(2) by (simp add: merge_concat_fail[OF h] run_error)
next
  assume h: "allVideosPass E vs" "musicVerdict E m = Resolved ()"
    "encodesOk E cwd vs (length vs)" "run E (concatCmd cwd) = Resolved ()"
    "run E (muxCmd cwd m) \<noteq> Resolved ()"
  have "ev \<in> set (setupEvents cwd) \<or> ev \<in> set (probeEvents vs) \<or> ev = Probe (path m)
      \<or> ev \<in> set (encodeEvents cwd vs (length vs)) \<or> ev = manifestEvent cwd (length vs)
      \<or> ev = Run (concatCmd cwd) \<or> ev = Run (muxCmd cwd m)"
    using assms(1) by (auto simp: merge_mux_fail[OF h] validationEvents_def)
  then have "ev = Run (muxCmd cwd m)"
    using assms(2) no_error_setup[of ev cwd E] no_error_probes[OF h(1), of ev]
      no_error_music[OF h(2)] no_error_encodes[OF h(3), of ev] h(4) by auto
  then show ?thesis using assms(2) by (simp add: merge_mux_fail[OF h] run_error)
next
  assume h: "allVideosPass E vs" "musicVerdict E m = Resolved ()"
    "encodesOk E cwd vs (length vs)" "run E (concatCmd cwd) = Resolved ()"
    "run E (muxCmd cwd m) = Resolved ()"
  have "ev \<in> set (setupEvents cwd) \<or> ev \<in> set (probeEvents vs) \<or> ev = Probe (path m)
      \<or> ev \<in> set (encodeEvents cwd vs (length vs)) \<or> ev = manifestEvent cwd (length vs)
      \<or> ev = Run (concatCmd cwd) \<or> ev = Run (muxCmd cwd m)
      \<or> ev \<in> set (cleanupEvents cwd (length vs))"
    using assms(1) by (auto simp: merge_ok[OF h] validationEvents_def)
  then have False
    using assms(2) no_error_setup[of ev cwd E] no_error_probes[OF h(1), of ev]
      no_error_music[OF h(2)] no_error_encodes[OF h(3), of ev] h(4,5)
      no_error_cleanup[of ev cwd "length vs" E] by auto
  then show ?thesis ..
qed




lemma pending_iff_incomplete:
  "fst (mergeVideosWithMusic E cwd vs m w) = Pending
     \<longleftrightarrow> \<not> list_all (completes E) (newEvents w (snd (mergeVideosWithMusic E cwd vs m w)))"
proof -
  have mv: "musicVerdict E m = Resolved () \<Longrightarrow> ffprobe E (path m) \<noteq> Pending"
    by (auto simp: musicVerdict_def)
  show ?thesis
    using merge_cases[of vs E m cwd]
  proof (elim disjE exE conjE)
    fix pre bad post
    assume "vs = pre @ bad # post" "allVideosPass E pre" "videoVerdict E bad \<noteq> Resolved ()"
    then show ?thesis
      by (simp add: merge_video_fail mergeFailure_Pending completes_probes videoVerdict_Pending)
  next
    assume "allVideosPass E vs" "musicVerdict E m \<noteq> Resolved ()"
    then show ?thesis
      by (simp add: merge_music_fail mergeFailure_Pending completes_probes musicVerdict_Pending)
  next
    fix k
    assume "allVideosPass E vs" "musicVerdict E m = Resolved ()" "k < length vs"
      "encodesOk E cwd vs k" "run E (encodeCmd cwd vs k) \<noteq> Resolved ()"
    then show ?thesis
      by (simp add: merge_encode_fail mergeFailure_Pending completes_probes completes_encodes
            validationEvents_def encodeEvents_Suc mv)
  next
    assume "allVideosPass E vs" "musicVerdict E m = Resolved ()"
      "encodesOk E cwd vs (length vs)" "run E (concatCmd cwd) \<noteq> Resolved ()"
    then show ?thesis
      by (simp add: merge_concat_fail mergeFailure_Pending completes_probes completes_encodes
            validationEvents_def mv)
  next
    assume "allVideosPass E vs" "musicVerdict E m = Resolved ()"
      "encodesOk E cwd vs (length vs)" "run E (concatCmd cwd) = Resolved ()"
      "run E (muxCmd cwd m) \<noteq> Resolved ()"
    then show ?thesis
      by (simp add: merge_mux_fail mergeFailure_Pending completes_probes completes_encodes
            validationEvents_def mv)
  next
    assume "allVideosPass E vs" "musicVerdict E m = Resolved ()"
      "encodesOk E cwd vs (length vs)" "run E (concatCmd cwd) = Resolved ()"
      "run E (muxCmd cwd m) = Resolved ()"
    then show ?thesis
      by (simp add: merge_ok completes_probes completes_encodes validationEvents_def mv)
  qed
qed

section \<open>Facts about the example inputs\<close>

lemma studio_clips: "videoVerdict (studio r) clipA = Resolved ()" "videoVerdict (studio r) clipB = Resolved ()"
  "musicVerdict (studio r) song = Resolved ()"
  by (simp_all add: videoVerdict_def musicVerdict_def studio_def clipA_def clipB_def song_def
       checkVideoStreams_def checkAudioStreams_def hdStream_def aacStream_def
       supportedVideoCodecs_def supportedAudioCodecs_def)

lemma studio_all_ok:
  "run (studio allRunsOk) c = Resolved ()"
  by (simp add: studio_def allRunsOk_def)

lemma studio_jingle: "musicVerdict (studio r) jingle = Resolved ()"
  by (simp add: musicVerdict_def studio_def jingle_def song_def
       checkAudioStreams_def hdStream_def aacStream_def supportedAudioCodecs_def)

lemma studio_job1:
  "fst (mergeVideosWithMusic (studio allRunsOk) ''/srv'' [clipA] song world0) = Resolved (outputPath ''/srv'')"
  by (simp add: merge_Resolved_iff allVideosPass_def studio_clips encodesOk_def studio_all_ok)

lemma studio_job2:
  "fst (mergeVideosWithMusic (studio allRunsOk) ''/srv'' [clipB] jingle world0) = Resolved (outputPath ''/srv'')"
  by (simp add: merge_Resolved_iff allVideosPass_def studio_clips studio_jingle encodesOk_def studio_all_ok)

lemma string_of_nat_small: "string_of_nat 0 = ''0''" "string_of_nat (Suc 0) = ''1''"
  by code_simp+

lemma not_named: "\<not> sublist ''beach.mp4'' ''Video merge failed: ffprobe exited with code 1''"
  by (simp add: sublist_Cons_right prefix_Cons)

lemma threeParts_job:
  "upload_fields mergeFields threeParts = Inr [(''videos'', [clipA, clipB]), (''music'', [song])]"
  "extractJob (Some [(''videos'', [clipA, clipB]), (''music'', [song])]) = Inr ([clipA, clipB], song)"
  by (simp_all add: upload_fields_def mergeFields_def threeParts_def filesOfField_def extractJob_def)

lemma threeParts_stored:
  "world0\<lparr>files := files world0 \<union> set (map (\<lambda>p. path (snd p)) threeParts)\<rparr> = uploaded"
  by (auto simp: world0_def uploaded_def threeParts_def)

lemma failed_merge_example:
  "mergeVideosWithMusic (studio (failingOn (processedPath ''/srv'' 1))) ''/srv'' [clipA, clipB] song uploaded
     = (Rejected ''Video merge failed: ffmpeg exited with code 1'',
        \<lparr>files = {''/srv/temp/processed_0.mp4'', path clipA, path clipB, path song},
         trace = [Mkdir ''/srv/uploads'', Mkdir ''/srv/outputs'', Mkdir ''/srv/temp'',
                  Probe (path clipA), Probe (path clipB), Probe (path song),
                  Run (processVideoCmd (path clipA) ''/srv/temp/processed_0.mp4''),
                  Run (processVideoCmd (path clipB) ''/srv/temp/processed_1.mp4'')]\<rparr>)"
proof -
  let ?E = "studio (failingOn (processedPath ''/srv'' 1))"
  have 1: "allVideosPass ?E [clipA, clipB]" by (simp add: allVideosPass_def studio_clips)
  have 2: "encodesOk ?E ''/srv'' [clipA, clipB] 1"
    using processedPath_inj[of "''/srv''" 0 1]
    by (auto simp add: encodesOk_def studio_def failingOn_def)
  have 3: "run ?E (encodeCmd ''/srv'' [clipA, clipB] 1) \<noteq> Resolved ()"
    by (simp add: studio_def failingOn_def)
  have 4: "run ?E (encodeCmd ''/srv'' [clipA, clipB] 1) = Rejected ''ffmpeg exited with code 1''"
    by (simp add: studio_def failingOn_def)
  have 5: "1 < length [clipA, clipB]" by simp
  have "mergeVideosWithMusic ?E ''/srv'' [clipA, clipB] song uploaded =
     (mergeFailure (Rejected ''ffmpeg exited with code 1'' :: unit outcome),
      (emits (validationEvents ''/srv'' [clipA, clipB] song @ encodeEvents ''/srv'' [clipA, clipB] (Suc 1)) uploaded)
        \<lparr>files := files uploaded \<union> processedPath ''/srv'' ` {0..<1}\<rparr>)"
    using merge_encode_fail[of ?E "[clipA, clipB]" song 1 "''/srv''" uploaded, OF 1 studio_clips(3) 5 2 3]
    by (simp only: 4)
  also have "\<dots> = (Rejected ''Video merge failed: ffmpeg exited with code 1'',
        \<lparr>files = {''/srv/temp/processed_0.mp4'', path clipA, path clipB, path song},
         trace = [Mkdir ''/srv/uploads'', Mkdir ''/srv/outputs'', Mkdir ''/srv/temp'',
                  Probe (path clipA), Probe (path clipB), Probe (path song),
                  Run (processVideoCmd (path clipA) ''/srv/temp/processed_0.mp4''),
                  Run (processVideoCmd (path clipB) ''/srv/temp/processed_1.mp4'')]\<rparr>)"
    by (auto simp add: mergeFailedMsg_def validationEvents_def setupEvents_def probeEvents_def
       encodeEvents_def encodeCmd_def uploaded_def emits_def
       processedPath_def TEMP_DIR_def UPLOAD_DIR_def OUTPUT_DIR_def path_join_def string_of_nat_small)
  finally show ?thesis .
qed

lemma studio_loop: "fst (processLoop (studio allRunsOk) ''/srv'' [clipA, clipB] 0 [] world0)
    = Resolved [''/srv/temp/processed_0.mp4'', ''/srv/temp/processed_1.mp4'']"
proof -
  have e: "encodesOk (studio allRunsOk) ''/srv'' [clipA, clipB] (length [clipA, clipB])"
    by (simp add: encodesOk_def studio_all_ok)
  have u: "[0..<length [clipA, clipB]] = [0, Suc 0]" by (simp add: upt_conv_Cons)
  show ?thesis
    unfolding loop_ok[OF e] u
    by (simp add: processedPath_def TEMP_DIR_def path_join_def string_of_nat_small)
qed

section \<open>Cleanup\<close>

text \<open>
  On the path without failure everything is cleaned up: the three kinds of intermediate
  files are unlinked by \<^verbatim>\<open>mergeVideosWithMusic\<close>, the uploaded inputs by the handler after
  the download, and the merged file stays.
\<close>

lemma successful_job_cleans_up:
  assumes "extractJob reqFiles = Inr (vs, m)"
    and "allVideosPass E vs" "musicVerdict E m = Resolved ()"
    and "encodesOk E cwd vs (length vs)" "run E (concatCmd cwd) = Resolved ()"
    and "run E (muxCmd cwd m) = Resolved ()"
  shows "fst (mergeHandler E cwd reqFiles w) = Resolved (Download (outputPath cwd) ''merged.mp4'')
     \<and> files (snd (mergeHandler E cwd reqFiles w)) =
         insert (outputPath cwd) (files w)
           - (processedPath cwd ` {0..<length vs} \<union> {listPath cwd, concatenatedPath cwd})
           - set (map path vs @ [path m])"
  by (auto simp add: mergeHandler_def assms(1) merge_ok[OF assms(2-6)] fold_unlinkLogged
        unlinkLogged_def emit_def)

text \<open>
  C1 says that no intermediate artifact survives a job that fails, and that the
  uploaded inputs are deleted as well. The code deletes on the path without failure
  only. Here the second of two valid videos fails to normalise: the request is answered
  with status 500, no file is unlinked, and the first normalised intermediate and the
  three uploaded inputs are all still there.
\<close>

theorem failed_job_leaves_everything:
  "postMerge (studio (failingOn (processedPath ''/srv'' 1))) ''/srv'' (Some threeParts) world0
     = (Resolved (Json 500 [(''error'', ''Merge failed''),
                            (''details'', ''Video merge failed: ffmpeg exited with code 1'')]),
        \<lparr>files = {''/srv/temp/processed_0.mp4'', path clipA, path clipB, path song},
         trace = [Mkdir ''/srv/uploads'', Mkdir ''/srv/outputs'', Mkdir ''/srv/temp'',
                  Probe (path clipA), Probe (path clipB), Probe (path song),
                  Run (processVideoCmd (path clipA) ''/srv/temp/processed_0.mp4''),
                  Run (processVideoCmd (path clipB) ''/srv/temp/processed_1.mp4'')]\<rparr>)"
  by (simp only: postMerge_def option.case threeParts_job sum.case mergeHandler_def
        threeParts_stored prod.case failed_merge_example outcome.case)

section \<open>Concatenation\<close>



section \<open>Fail-fast validation\<close>

text \<open>
  C3, as stated, fails in its last part: when \<^verbatim>\<open>ffprobe\<close> itself fails on an input,
  the error of the engine is thrown on unchanged, and the reported message need not
  contain the display name of the input.
\<close>

theorem error_naming_counterexample:
  "fst (mergeVideosWithMusic
          (withProbe (path clipA) (Rejected ''ffprobe exited with code 1'') (studio allRunsOk))
          ''/srv'' [clipA, clipB] song world0)
     = Rejected ''Video merge failed: ffprobe exited with code 1''
   \<and> originalname clipA = ''beach.mp4''
   \<and> \<not> sublist (originalname clipA) ''Video merge failed: ffprobe exited with code 1''"
proof -
  let ?E = "withProbe (path clipA) (Rejected ''ffprobe exited with code 1'') (studio allRunsOk)"
  have v: "videoVerdict ?E clipA = Rejected ''ffprobe exited with code 1''"
    by (simp add: videoVerdict_def withProbe_def)
  have "mergeVideosWithMusic ?E ''/srv'' ([] @ clipA # [clipB]) song world0 =
     (mergeFailure (videoVerdict ?E clipA), emits (setupEvents ''/srv'' @ probeEvents ([] @ [clipA])) world0)"
    by (rule merge_video_fail) (simp_all add: allVideosPass_def v)
  moreover have "originalname clipA = ''beach.mp4''" by (simp add: clipA_def)
  ultimately show ?thesis
    by (simp add: v mergeFailedMsg_def not_named)
qed

text \<open>
  C3, amended. Videos are validated in the order of submission, then the music file.
  The first input whose validation fails ends the job with that error, wrapped as
  \<open>Video merge failed: ...\<close>: the probes made are exactly those of the inputs up to and
  including the failing one, no later input is probed, no file is created, and no
  other stage runs. When the failing input could be probed, the reported message
  contains its display name.
\<close>

theorem validation_fail_fast:
  "(allVideosPass E pre \<and> videoVerdict E bad = Rejected e \<longrightarrow>
      fst (mergeVideosWithMusic E cwd (pre @ bad # post) musicFile w) = Rejected (mergeFailedMsg e)
      \<and> files (snd (mergeVideosWithMusic E cwd (pre @ bad # post) musicFile w)) = files w
      \<and> trace (snd (mergeVideosWithMusic E cwd (pre @ bad # post) musicFile w))
          = trace w @ setupEvents cwd @ map (\<lambda>f. Probe (path f)) (pre @ [bad])
      \<and> (\<forall>md. ffprobe E (path bad) = Resolved md \<longrightarrow> sublist (originalname bad) (mergeFailedMsg e)))
   \<and> (allVideosPass E videoFiles \<and> musicVerdict E musicFile = Rejected e \<longrightarrow>
      fst (mergeVideosWithMusic E cwd videoFiles musicFile w) = Rejected (mergeFailedMsg e)
      \<and> files (snd (mergeVideosWithMusic E cwd videoFiles musicFile w)) = files w
      \<and> trace (snd (mergeVideosWithMusic E cwd videoFiles musicFile w))
          = trace w @ setupEvents cwd @ map (\<lambda>f. Probe (path f)) (videoFiles @ [musicFile])
      \<and> (\<forall>md. ffprobe E (path musicFile) = Resolved md \<longrightarrow>
            sublist (originalname musicFile) (mergeFailedMsg e)))"
proof (intro conjI impI allI)
  assume h: "allVideosPass E pre \<and> videoVerdict E bad = Rejected e"
  then have b: "videoVerdict E bad \<noteq> Resolved ()" by simp
  have m: "mergeVideosWithMusic E cwd (pre @ bad # post) musicFile w =
     (mergeFailure (videoVerdict E bad), emits (setupEvents cwd @ probeEvents (pre @ [bad])) w)"
    using h b by (simp add: merge_video_fail)
  show "fst (mergeVideosWithMusic E cwd (pre @ bad # post) musicFile w) = Rejected (mergeFailedMsg e)"
    using h by (simp add: m)
  show "files (snd (mergeVideosWithMusic E cwd (pre @ bad # post) musicFile w)) = files w"
    by (simp add: m)
  show "trace (snd (mergeVideosWithMusic E cwd (pre @ bad # post) musicFile w))
          = trace w @ setupEvents cwd @ map (\<lambda>f. Probe (path f)) (pre @ [bad])"
    by (simp add: m probeEvents_def)
  fix md assume "ffprobe E (path bad) = Resolved md"
  with h have "checkVideoStreams bad md = Rejected e" by (simp add: videoVerdict_def)
  then show "sublist (originalname bad) (mergeFailedMsg e)"
    by (intro sublist_mergeFailedMsg checkVideoStreams_names)
next
  assume h: "allVideosPass E videoFiles \<and> musicVerdict E musicFile = Rejected e"
  then have b: "musicVerdict E musicFile \<noteq> Resolved ()" by simp
  have m: "mergeVideosWithMusic E cwd videoFiles musicFile w =
     (mergeFailure (musicVerdict E musicFile),
      emits (setupEvents cwd @ probeEvents (videoFiles @ [musicFile])) w)"
    using h b by (simp add: merge_music_fail)
  show "fst (mergeVideosWithMusic E cwd videoFiles musicFile w) = Rejected (mergeFailedMsg e)"
    using h by (simp add: m)
  show "files (snd (mergeVideosWithMusic E cwd videoFiles musicFile w)) = files w"
    by (simp add: m)
  show "trace (snd (mergeVideosWithMusic E cwd videoFiles musicFile w))
          = trace w @ setupEvents cwd @ map (\<lambda>f. Probe (path f)) (videoFiles @ [musicFile])"
    by (simp add: m probeEvents_def)
  fix md assume "ffprobe E (path musicFile) = Resolved md"
  with h have "checkAudioStreams musicFile md = Rejected e" by (simp add: musicVerdict_def)
  then show "sublist (originalname musicFile) (mergeFailedMsg e)"
    by (intro sublist_mergeFailedMsg checkAudioStreams_names)
qed

theorem validation_fail_fast_witness:
  "fst (mergeVideosWithMusic
          (withProbe (path clipA) (Resolved \<lparr>streams = [vp6WideStream]\<rparr>) (studio allRunsOk))
          ''/srv'' [clipA, clipB] song world0)
     = Rejected (mergeFailedMsg (unsupportedVideoCodecMsg clipA))
   \<and> trace (snd (mergeVideosWithMusic
          (withProbe (path clipA) (Resolved \<lparr>streams = [vp6WideStream]\<rparr>) (studio allRunsOk))
          ''/srv'' [clipA, clipB] song world0))
     = [Mkdir ''/srv/uploads'', Mkdir ''/srv/outputs'', Mkdir ''/srv/temp'', Probe (path clipA)]
   \<and> sublist ''beach.mp4'' (mergeFailedMsg (unsupportedVideoCodecMsg clipA))
   \<and> fst (mergeVideosWithMusic
          (withProbe (path song) (Resolved \<lparr>streams = [pcmStream]\<rparr>) (studio allRunsOk))
          ''/srv'' [clipA, clipB] song world0)
     = Rejected (mergeFailedMsg (unsupportedAudioCodecMsg song))
   \<and> trace (snd (mergeVideosWithMusic
          (withProbe (path song) (Resolved \<lparr>streams = [pcmStream]\<rparr>) (studio allRunsOk))
          ''/srv'' [clipA, clipB] song world0))
     = [Mkdir ''/srv/uploads'', Mkdir ''/srv/outputs'', Mkdir ''/srv/temp'',
        Probe (path clipA), Probe (path clipB), Probe (path song)]
   \<and> sublist ''tune.mp3'' (mergeFailedMsg (unsupportedAudioCodecMsg song))"
proof -
  let ?V = "withProbe (path clipA) (Resolved \<lparr>streams = [vp6WideStream]\<rparr>) (studio allRunsOk)"
  let ?A = "withProbe (path song) (Resolved \<lparr>streams = [pcmStream]\<rparr>) (studio allRunsOk)"
  have v: "videoVerdict ?V clipA = Rejected (unsupportedVideoCodecMsg clipA)"
    "ffprobe ?V (path clipA) = Resolved \<lparr>streams = [vp6WideStream]\<rparr>"
    by (simp_all add: videoVerdict_def withProbe_def checkVideoStreams_def vp6WideStream_def
          supportedVideoCodecs_def)
  have a: "musicVerdict ?A song = Rejected (unsupportedAudioCodecMsg song)"
    "ffprobe ?A (path song) = Resolved \<lparr>streams = [pcmStream]\<rparr>"
    by (simp_all add: musicVerdict_def withProbe_def checkAudioStreams_def pcmStream_def
          supportedAudioCodecs_def)
  have p: "allVideosPass ?A [clipA, clipB]"
    by (simp add: allVideosPass_def videoVerdict_def withProbe_def studio_def clipA_def clipB_def
          song_def checkVideoStreams_def hdStream_def supportedVideoCodecs_def)
  have n: "allVideosPass ?V []" by (simp add: allVideosPass_def)
  have d: "setupEvents ''/srv'' = [Mkdir ''/srv/uploads'', Mkdir ''/srv/outputs'', Mkdir ''/srv/temp'']"
    by (simp add: setupEvents_def UPLOAD_DIR_def OUTPUT_DIR_def TEMP_DIR_def path_join_def)
  have o: "originalname clipA = ''beach.mp4''" "originalname song = ''tune.mp3''"
    by (simp_all add: clipA_def song_def)
  show ?thesis
    using validation_fail_fast[of ?V "[]" clipA "unsupportedVideoCodecMsg clipA" "''/srv''"
            "[clipB]" song world0 "[]"]
          validation_fail_fast[of ?A "[]" clipA "unsupportedAudioCodecMsg song" "''/srv''"
            "[]" song world0 "[clipA, clipB]"]
          n v a p
    by (simp add: d o world0_def)
qed

section \<open>Audio muxing\<close>

text \<open>
  What the code contributes to the muxing stage: a job that reaches it runs the engine
  on the concatenated file and the music file, asking for a copy of the video stream,
  AAC audio at 192 kbit/s and the shorter of the two durations. The duration of the
  file the engine then writes is a property of the engine, outside this model.
\<close>

lemma mux_invocation:
  assumes "allVideosPass E vs" "musicVerdict E m = Resolved ()"
    "encodesOk E cwd vs (length vs)" "run E (concatCmd cwd) = Resolved ()"
  shows "Run \<lparr>inputs = [concatenatedPath cwd, path m], inputOptions = [],
              outputOptions = [''-c:v copy'', ''-c:a aac'', ''-b:a 192k'', ''-shortest'',
                               ''-map 0:v:0'', ''-map 1:a:0'', ''-movflags +faststart''],
              outputFile = outputPath cwd\<rparr>
          \<in> set (newEvents w (snd (mergeVideosWithMusic E cwd vs m w)))"
proof (cases "run E (muxCmd cwd m) = Resolved ()")
  case True
  show ?thesis by (simp add: merge_ok[OF assms True] muxCmd_def)
next
  case False
  show ?thesis by (simp add: merge_mux_fail[OF assms False] muxCmd_def)
qed

section \<open>Validation of one input\<close>

text \<open>
  C5, as stated, fails: a video wider than 3840 whose codec is not whitelisted is
  rejected for its codec, the check that comes first, and not for its resolution.
\<close>

theorem resolution_error_counterexample:
  "js_gt (width vp6WideStream) 3840
   \<and> fst (validateVideo (probing (Resolved \<lparr>streams = [vp6WideStream]\<rparr>)) clipA world0)
       = Rejected (unsupportedVideoCodecMsg clipA)
   \<and> fst (validateVideo (probing (Resolved \<lparr>streams = [vp6WideStream]\<rparr>)) clipA world0)
       \<noteq> Rejected (resolutionTooHighMsg clipA)"
  by (simp add: validateVideo_def getVideoMetadata_def probing_def checkVideoStreams_def
        vp6WideStream_def supportedVideoCodecs_def unsupportedVideoCodecMsg_def
        resolutionTooHighMsg_def)

text \<open>
  C5, amended. For every video input that was probed and whose first video stream has a
  whitelisted codec, validation fails with the resolution error if and only if the width
  of that stream exceeds 3840 or its height exceeds 2160, and accepts the file otherwise;
  a video of exactly 3840 by 2160 is accepted. A video whose first video stream has a
  codec that is not whitelisted is rejected with the codec error, and not with the
  resolution error, whatever its resolution.
\<close>

theorem resolution_ceiling:
  assumes "ffprobe E (path file) = Resolved md"
    and "find (\<lambda>s. codec_type s = ''video'') (streams md) = Some s"
  shows "(codec_name s \<notin> set supportedVideoCodecs \<longrightarrow>
            fst (validateVideo E file w) = Rejected (unsupportedVideoCodecMsg file)
            \<and> fst (validateVideo E file w) \<noteq> Rejected (resolutionTooHighMsg file))
       \<and> (codec_name s \<in> set supportedVideoCodecs \<longrightarrow>
            (fst (validateVideo E file w) = Rejected (resolutionTooHighMsg file)
               \<longleftrightarrow> js_gt (width s) 3840 \<or> js_gt (height s) 2160)
            \<and> (fst (validateVideo E file w) = Resolved ()
               \<longleftrightarrow> \<not> (js_gt (width s) 3840 \<or> js_gt (height s) 2160))
            \<and> (width s = Some 3840 \<and> height s = Some 2160
               \<longrightarrow> fst (validateVideo E file w) = Resolved ()))"
  using assms codec_msg_not_resolution_msg[of "file"]
  by (auto simp: validateVideo_eq videoVerdict_def checkVideoStreams_def)

theorem resolution_ceiling_witness:
  "fst (validateVideo (probing (Resolved \<lparr>streams = [uhdStream]\<rparr>)) clipA world0) = Resolved ()
   \<and> fst (validateVideo (probing (Resolved \<lparr>streams = [wideStream]\<rparr>)) clipA world0)
       = Rejected (resolutionTooHighMsg clipA)
   \<and> fst (validateVideo (probing (Resolved \<lparr>streams = [vp6WideStream]\<rparr>)) clipA world0)
       = Rejected (unsupportedVideoCodecMsg clipA)"
proof -
  have u: "fst (validateVideo (probing (Resolved \<lparr>streams = [uhdStream]\<rparr>)) clipA world0) = Resolved ()"
    using resolution_ceiling[of "probing (Resolved \<lparr>streams = [uhdStream]\<rparr>)" clipA
        "\<lparr>streams = [uhdStream]\<rparr>" uhdStream world0]
    by (simp add: probing_def uhdStream_def supportedVideoCodecs_def)
  have w: "fst (validateVideo (probing (Resolved \<lparr>streams = [wideStream]\<rparr>)) clipA world0)
       = Rejected (resolutionTooHighMsg clipA)"
    using resolution_ceiling[of "probing (Resolved \<lparr>streams = [wideStream]\<rparr>)" clipA
        "\<lparr>streams = [wideStream]\<rparr>" wideStream world0]
    by (simp add: probing_def wideStream_def supportedVideoCodecs_def)
  have v: "fst (validateVideo (probing (Resolved \<lparr>streams = [vp6WideStream]\<rparr>)) clipA world0)
       = Rejected (unsupportedVideoCodecMsg clipA)"
    using resolution_ceiling[of "probing (Resolved \<lparr>streams = [vp6WideStream]\<rparr>)" clipA
        "\<lparr>streams = [vp6WideStream]\<rparr>" vp6WideStream world0]
    by (simp add: probing_def vp6WideStream_def supportedVideoCodecs_def)
  from u w v show ?thesis by simp
qed

section \<open>Accepted jobs\<close>

text \<open>
  C6. A request is accepted when multer lets it through and the handler reaches the call
  of \<^verbatim>\<open>mergeVideosWithMusic\<close>. The videos of every accepted job are the files of field
  \<open>videos\<close>, between 1 and 20 of them, and the request carried exactly one music file. A
  request with more than 20 videos (21, say) is answered with status 500 and leaves the
  world as it was: nothing is probed.
\<close>

theorem accepted_job_counts:
  "(upload_fields mergeFields parts = Inr reqFiles
      \<and> extractJob (Some reqFiles) = Inr (videoFiles, musicFile)
    \<longrightarrow> videoFiles = filesOfField ''videos'' parts
        \<and> 1 \<le> length videoFiles \<and> length videoFiles \<le> 20
        \<and> filesOfField ''music'' parts = [musicFile])
   \<and> (20 < length (filesOfField ''videos'' parts)
    \<longrightarrow> postMerge E cwd (Some parts) w =
          (Resolved (Json 500 [(''error'', ''Internal server error''), (''details'', ''Unexpected field'')]),
           w))"
proof (intro conjI impI)
  assume h: "upload_fields mergeFields parts = Inr reqFiles
      \<and> extractJob (Some reqFiles) = Inr (videoFiles, musicFile)"
  note u = upload_fields_Inr[OF conjunct1[OF h]]
  have e: "extractJob (Some reqFiles) = Inr (videoFiles, musicFile)" using h by simp
  have v: "videoFiles = filesOfField ''videos'' parts \<and> videoFiles \<noteq> []"
    using e u(3) by (auto simp: extractJob_def Let_def split: option.splits if_splits list.splits)
  have m: "filesOfField ''music'' parts = [musicFile]"
  proof -
    obtain ms where ms: "filesOfField ''music'' parts = musicFile # ms"
      using e u(4) by (auto simp: extractJob_def Let_def split: option.splits if_splits list.splits)
    with u(2) show ?thesis by simp
  qed
  show "videoFiles = filesOfField ''videos'' parts" using v by blast
  have "videoFiles \<noteq> []" using v by blast
  then show "1 \<le> length videoFiles" by (simp add: Suc_le_eq)
  show "length videoFiles \<le> 20" using v u(1) by auto
  show "filesOfField ''music'' parts = [musicFile]" by (rule m)
next
  assume "20 < length (filesOfField ''videos'' parts)"
  then show "postMerge E cwd (Some parts) w =
          (Resolved (Json 500 [(''error'', ''Internal server error''), (''details'', ''Unexpected field'')]),
           w)"
    by (simp add: postMerge_def upload_fields_too_many)
qed

theorem accepted_job_counts_witness:
  "upload_fields mergeFields threeParts = Inr [(''videos'', [clipA, clipB]), (''music'', [song])]
   \<and> extractJob (Some [(''videos'', [clipA, clipB]), (''music'', [song])]) = Inr ([clipA, clipB], song)
   \<and> 1 \<le> length [clipA, clipB] \<and> length [clipA, clipB] \<le> 20
   \<and> filesOfField ''music'' threeParts = [song]
   \<and> 20 < length (filesOfField ''videos'' (replicate 21 (''videos'', clipA) @ [(''music'', song)]))
   \<and> postMerge (studio allRunsOk) ''/srv'' (Some (replicate 21 (''videos'', clipA) @ [(''music'', song)])) world0
       = (Resolved (Json 500 [(''error'', ''Internal server error''), (''details'', ''Unexpected field'')]),
          world0)"
proof -
  let ?many = "replicate 21 (''videos'', clipA) @ [(''music'', song)]"
  have l: "20 < length (filesOfField ''videos'' ?many)"
    by (simp add: filesOfField_def)
  have a: "1 \<le> length [clipA, clipB] \<and> length [clipA, clipB] \<le> 20
      \<and> filesOfField ''music'' threeParts = [song]"
    using accepted_job_counts[of threeParts "[(''videos'', [clipA, clipB]), (''music'', [song])]"
            "[clipA, clipB]" song "studio allRunsOk" "''/srv''" world0]
          threeParts_job
    by blast
  have b: "postMerge (studio allRunsOk) ''/srv'' (Some ?many) world0
       = (Resolved (Json 500 [(''error'', ''Internal server error''), (''details'', ''Unexpected field'')]),
          world0)"
    using accepted_job_counts[of ?many "[]" "[]" song "studio allRunsOk" "''/srv''" world0] l
    by blast
  from a b threeParts_job l show ?thesis by blast
qed

section \<open>Naming of the normalised files\<close>

text \<open>
  C7. The loop over the videos runs, in order, the normalisation of the video at
  position \<open>i\<close> into \<open>processed_i.mp4\<close> of the temporary directory, for the positions
  below some \<open>k\<close>, and for all positions when it succeeds;
  then the paths it collected are \<open>processed_0.mp4\<close>, \<open>processed_1.mp4\<close>, ..., and
  these are the files it added. The name is a function of the position alone, and
  different positions have different names. Running the loop again over as many videos
  or fewer, whatever they and the engine are, collects the same names for its positions
  and leaves the set of files as the first run left it: the files are overwritten, none is added. The same
  for one position: normalising twice into its name adds at most that one file, and
  none when the first run succeeded.
\<close>

theorem renormalize_overwrites:
  "(\<exists>k\<le>length videoFiles.
       newEvents w (snd (processLoop E cwd videoFiles 0 [] w))
         = map (\<lambda>i. Run (processVideoCmd (path (videoFiles ! i)) (processedPath cwd i))) [0..<k]
       \<and> (fst (processLoop E cwd videoFiles 0 [] w) = Resolved ps \<longrightarrow> k = length videoFiles))
   \<and> (fst (processLoop E cwd videoFiles 0 [] w) = Resolved ps
      \<longrightarrow> ps = map (processedPath cwd) [0..<length videoFiles]
          \<and> files (snd (processLoop E cwd videoFiles 0 [] w))
              = files w \<union> processedPath cwd ` {0..<length videoFiles})
   \<and> (fst (processLoop E cwd videoFiles 0 [] w) = Resolved ps
        \<and> length again \<le> length videoFiles
        \<and> fst (processLoop Eb cwd again 0 [] (snd (processLoop E cwd videoFiles 0 [] w))) = Resolved psb
      \<longrightarrow> psb = take (length again) ps
          \<and> files (snd (processLoop Eb cwd again 0 [] (snd (processLoop E cwd videoFiles 0 [] w))))
              = files (snd (processLoop E cwd videoFiles 0 [] w)))
   \<and> processedPath cwd i = TEMP_DIR cwd @ ''/processed_'' @ string_of_nat i @ ''.mp4''
   \<and> (processedPath cwd i = processedPath cwd j \<longleftrightarrow> i = j)
   \<and> files (snd (processVideo Eb srcb (processedPath cwd i)
                (snd (processVideo Ea srca (processedPath cwd i) w))))
       \<subseteq> insert (processedPath cwd i) (files w)
   \<and> (run Ea (processVideoCmd srca (processedPath cwd i)) = Resolved () \<longrightarrow>
        files (snd (processVideo Eb srcb (processedPath cwd i)
                (snd (processVideo Ea srca (processedPath cwd i) w))))
        = files (snd (processVideo Ea srca (processedPath cwd i) w)))"
proof -
  let ?L = "processLoop E cwd videoFiles 0 [] w"
  let ?L2 = "processLoop Eb cwd again 0 [] (snd ?L)"
  have a: "\<exists>k\<le>length videoFiles.
       newEvents w (snd ?L)
         = map (\<lambda>i. Run (processVideoCmd (path (videoFiles ! i)) (processedPath cwd i))) [0..<k]
       \<and> (fst ?L = Resolved ps \<longrightarrow> k = length videoFiles)"
    using processLoop_shape[of videoFiles w E cwd]
    by (simp only: encodeEvents_explicit) blast
  have b: "fst ?L = Resolved ps
      \<longrightarrow> ps = map (processedPath cwd) [0..<length videoFiles]
          \<and> files (snd ?L) = files w \<union> processedPath cwd ` {0..<length videoFiles}"
    using processLoop_Resolved[of E cwd videoFiles w ps]
      processLoop_Resolved_files[of E cwd videoFiles w ps] by blast
  have c: "fst ?L = Resolved ps \<and> length again \<le> length videoFiles \<and> fst ?L2 = Resolved psb
      \<longrightarrow> psb = take (length again) ps \<and> files (snd ?L2) = files (snd ?L)"
  proof (intro impI, elim conjE)
    assume 1: "fst ?L = Resolved ps" and le: "length again \<le> length videoFiles"
      and 2: "fst ?L2 = Resolved psb"
    have p1: "ps = map (processedPath cwd) [0..<length videoFiles]"
      and f1: "files (snd ?L) = files w \<union> processedPath cwd ` {0..<length videoFiles}"
      using b 1 by blast+
    have p2: "psb = map (processedPath cwd) [0..<length again]"
      using processLoop_Resolved[OF 2] by simp
    have f2: "files (snd ?L2) = files (snd ?L) \<union> processedPath cwd ` {0..<length again}"
      by (rule processLoop_Resolved_files[OF 2])
    have t: "psb = take (length again) ps"
      using le by (simp add: p1 p2 take_map)
    have "files (snd ?L2) = files (snd ?L)"
      using le unfolding f2 f1 by auto
    with t show "psb = take (length again) ps \<and> files (snd ?L2) = files (snd ?L)" by blast
  qed
  have o: "\<And>src. outputFile (processVideoCmd src (processedPath cwd i)) = processedPath cwd i"
    by (simp add: processVideoCmd_def)
  have f: "\<And>E src w. files (snd (processVideo E src (processedPath cwd i) w))
      = (if run E (processVideoCmd src (processedPath cwd i)) = Resolved ()
         then insert (processedPath cwd i) (files w) else files w)"
    by (simp add: processVideo_def runFfmpeg_def o emit_def split: outcome.splits)
  have n: "processedPath cwd i = TEMP_DIR cwd @ ''/processed_'' @ string_of_nat i @ ''.mp4''"
    by (simp add: processedPath_def path_join_def)
  have inj: "processedPath cwd i = processedPath cwd j \<longleftrightarrow> i = j"
    using processedPath_inj[of cwd i j] by blast
  have s: "files (snd (processVideo Eb srcb (processedPath cwd i)
                (snd (processVideo Ea srca (processedPath cwd i) w))))
       \<subseteq> insert (processedPath cwd i) (files w)"
    by (auto simp: f)
  have t: "run Ea (processVideoCmd srca (processedPath cwd i)) = Resolved () \<longrightarrow>
        files (snd (processVideo Eb srcb (processedPath cwd i)
                (snd (processVideo Ea srca (processedPath cwd i) w))))
        = files (snd (processVideo Ea srca (processedPath cwd i) w))"
    by (auto simp: f)
  from a b c n inj s t show ?thesis by blast
qed

theorem renormalize_overwrites_witness:
  "fst (processLoop (studio allRunsOk) ''/srv'' [clipA, clipB] 0 [] world0)
     = Resolved [''/srv/temp/processed_0.mp4'', ''/srv/temp/processed_1.mp4'']
   \<and> length [clipB, clipA] \<le> length [clipA, clipB]
   \<and> fst (processLoop (studio allRunsOk) ''/srv'' [clipB, clipA] 0 []
            (snd (processLoop (studio allRunsOk) ''/srv'' [clipA, clipB] 0 [] world0)))
     = Resolved [''/srv/temp/processed_0.mp4'', ''/srv/temp/processed_1.mp4'']
   \<and> files (snd (processLoop (studio allRunsOk) ''/srv'' [clipA, clipB] 0 [] world0))
     = files world0 \<union> processedPath ''/srv'' ` {0..<length [clipA, clipB]}
   \<and> files (snd (processLoop (studio allRunsOk) ''/srv'' [clipB, clipA] 0 []
            (snd (processLoop (studio allRunsOk) ''/srv'' [clipA, clipB] 0 [] world0))))
     = files (snd (processLoop (studio allRunsOk) ''/srv'' [clipA, clipB] 0 [] world0))
   \<and> run (studio allRunsOk) (processVideoCmd (path clipA) (processedPath ''/srv'' 0)) = Resolved ()
   \<and> files (snd (processVideo (studio allRunsOk) (path clipB) (processedPath ''/srv'' 0)
                (snd (processVideo (studio allRunsOk) (path clipA) (processedPath ''/srv'' 0) world0))))
       = files (snd (processVideo (studio allRunsOk) (path clipA) (processedPath ''/srv'' 0) world0))"
proof -
  let ?E = "studio allRunsOk"
  let ?ps = "[''/srv/temp/processed_0.mp4'', ''/srv/temp/processed_1.mp4'']"
  note inst = renormalize_overwrites[where E = "?E" and cwd = "''/srv''" and videoFiles = "[clipA, clipB]"
      and w = world0 and ps = "?ps" and again = "[clipB, clipA]" and Eb = "?E" and psb = "?ps"
      and i = 0 and j = 0 and srcb = "path clipB" and Ea = "?E" and srca = "path clipA"]
  have r: "run ?E (processVideoCmd (path clipA) (processedPath ''/srv'' 0)) = Resolved ()"
    by (rule studio_all_ok)
  have l2: "fst (processLoop ?E ''/srv'' [clipB, clipA] 0 []
            (snd (processLoop ?E ''/srv'' [clipA, clipB] 0 [] world0))) = Resolved ?ps"
  proof -
    have e: "encodesOk ?E ''/srv'' [clipB, clipA] (length [clipB, clipA])"
      by (simp add: encodesOk_def studio_all_ok)
    have u: "[0..<length [clipB, clipA]] = [0, Suc 0]" by (simp add: upt_conv_Cons)
    show ?thesis
      unfolding loop_ok[OF e] u
      by (simp add: processedPath_def TEMP_DIR_def path_join_def string_of_nat_small)
  qed
  have le: "length [clipB, clipA] \<le> length [clipA, clipB]" by simp
  from inst studio_loop l2 le r show ?thesis by blast
qed

section \<open>Jobs and their paths\<close>

text \<open>
  C8, as stated, fails: two jobs with different uploads, run by the same server, write
  the same manifest, the same normalised file and the same merged file.
\<close>

theorem disjoint_jobs_counterexample:
  "clipA \<noteq> clipB \<and> song \<noteq> jingle
   \<and> ''/srv/temp/filelist.txt''
       \<in> writtenPaths (trace (snd (mergeVideosWithMusic (studio allRunsOk) ''/srv'' [clipA] song world0)))
         \<inter> writtenPaths (trace (snd (mergeVideosWithMusic (studio allRunsOk) ''/srv'' [clipB] jingle world0)))
   \<and> ''/srv/temp/processed_0.mp4''
       \<in> writtenPaths (trace (snd (mergeVideosWithMusic (studio allRunsOk) ''/srv'' [clipA] song world0)))
         \<inter> writtenPaths (trace (snd (mergeVideosWithMusic (studio allRunsOk) ''/srv'' [clipB] jingle world0)))
   \<and> ''/srv/outputs/merged.mp4''
       \<in> writtenPaths (trace (snd (mergeVideosWithMusic (studio allRunsOk) ''/srv'' [clipA] song world0)))
         \<inter> writtenPaths (trace (snd (mergeVideosWithMusic (studio allRunsOk) ''/srv'' [clipB] jingle world0)))"
proof -
  let ?E = "studio allRunsOk"
  have a: "allVideosPass ?E [clipA]" "allVideosPass ?E [clipB]"
    by (simp_all add: allVideosPass_def studio_clips)
  have e: "encodesOk ?E ''/srv'' [clipA] (length [clipA])" "encodesOk ?E ''/srv'' [clipB] (length [clipB])"
    by (simp_all add: encodesOk_def studio_all_ok)
  have p: "listPath ''/srv'' = ''/srv/temp/filelist.txt''"
    "processedPath ''/srv'' 0 = ''/srv/temp/processed_0.mp4''"
    "outputPath ''/srv'' = ''/srv/outputs/merged.mp4''"
    by (simp_all add: listPath_def processedPath_def outputPath_def TEMP_DIR_def OUTPUT_DIR_def
          path_join_def string_of_nat_small)
  have d: "clipA \<noteq> clipB" "song \<noteq> jingle"
    by (simp_all add: clipA_def clipB_def song_def jingle_def)
  show ?thesis
    by (simp add: merge_ok[OF a(1) studio_clips(3) e(1) studio_all_ok studio_all_ok]
          merge_ok[OF a(2) studio_jingle e(2) studio_all_ok studio_all_ok]
          validationEvents_def manifestEvent_def p[symmetric] d world0_def)
qed

text \<open>
  C8, amended. All jobs of one server share one temporary directory, one output
  directory and the same file names. Whatever its inputs and however it ends, a job
  with \<open>n\<close> videos writes no path other than \<open>processed_0\<close> to \<open>processed_(n-1)\<close>, the
  manifest, the concatenated file and the merged file, and a job that runs to
  completion writes exactly these. Any two jobs that run to completion return the same
  path for the merged file, both write the manifest, the concatenated file and the
  merged file at the same paths, both write \<open>processed_i\<close> for every position \<open>i\<close> that
  both have, and write the same set of paths when they have as many videos.
\<close>

theorem jobs_share_paths:
  "writtenPaths (newEvents wa (snd (mergeVideosWithMusic Ea cwd vsa ma wa)))
     \<subseteq> processedPath cwd ` {0..<length vsa} \<union> {listPath cwd, concatenatedPath cwd, outputPath cwd}
   \<and> (fst (mergeVideosWithMusic Ea cwd vsa ma wa) = Resolved outa \<longrightarrow>
        outa = outputPath cwd
        \<and> writtenPaths (newEvents wa (snd (mergeVideosWithMusic Ea cwd vsa ma wa)))
            = processedPath cwd ` {0..<length vsa}
              \<union> {listPath cwd, concatenatedPath cwd, outputPath cwd})
   \<and> (fst (mergeVideosWithMusic Ea cwd vsa ma wa) = Resolved outa
        \<and> fst (mergeVideosWithMusic Eb cwd vsb mb wb) = Resolved outb \<longrightarrow>
        outa = outb
        \<and> {listPath cwd, concatenatedPath cwd, outputPath cwd}
            \<subseteq> writtenPaths (newEvents wa (snd (mergeVideosWithMusic Ea cwd vsa ma wa)))
              \<inter> writtenPaths (newEvents wb (snd (mergeVideosWithMusic Eb cwd vsb mb wb)))
        \<and> (\<forall>i. i < length vsa \<and> i < length vsb \<longrightarrow>
              processedPath cwd i
                \<in> writtenPaths (newEvents wa (snd (mergeVideosWithMusic Ea cwd vsa ma wa)))
                  \<inter> writtenPaths (newEvents wb (snd (mergeVideosWithMusic Eb cwd vsb mb wb))))
        \<and> (length vsa = length vsb \<longrightarrow>
              writtenPaths (newEvents wa (snd (mergeVideosWithMusic Ea cwd vsa ma wa)))
                = writtenPaths (newEvents wb (snd (mergeVideosWithMusic Eb cwd vsb mb wb)))))"
proof (intro conjI impI)
  show "writtenPaths (newEvents wa (snd (mergeVideosWithMusic Ea cwd vsa ma wa)))
     \<subseteq> processedPath cwd ` {0..<length vsa} \<union> {listPath cwd, concatenatedPath cwd, outputPath cwd}"
    by (rule any_job_paths)
next
  assume "fst (mergeVideosWithMusic Ea cwd vsa ma wa) = Resolved outa"
  from completed_job_paths[OF this]
  show "outa = outputPath cwd"
    and "writtenPaths (newEvents wa (snd (mergeVideosWithMusic Ea cwd vsa ma wa)))
            = processedPath cwd ` {0..<length vsa}
              \<union> {listPath cwd, concatenatedPath cwd, outputPath cwd}"
    by blast+
next
  assume h: "fst (mergeVideosWithMusic Ea cwd vsa ma wa) = Resolved outa
        \<and> fst (mergeVideosWithMusic Eb cwd vsb mb wb) = Resolved outb"
  note a = completed_job_paths[OF conjunct1[OF h]]
  note b = completed_job_paths[OF conjunct2[OF h]]
  show "outa = outb" using a b by simp
  show "{listPath cwd, concatenatedPath cwd, outputPath cwd}
            \<subseteq> writtenPaths (newEvents wa (snd (mergeVideosWithMusic Ea cwd vsa ma wa)))
              \<inter> writtenPaths (newEvents wb (snd (mergeVideosWithMusic Eb cwd vsb mb wb)))"
    using a b by auto
  show "\<forall>i. i < length vsa \<and> i < length vsb \<longrightarrow>
              processedPath cwd i
                \<in> writtenPaths (newEvents wa (snd (mergeVideosWithMusic Ea cwd vsa ma wa)))
                  \<inter> writtenPaths (newEvents wb (snd (mergeVideosWithMusic Eb cwd vsb mb wb)))"
    using a b by auto
  show "writtenPaths (newEvents wa (snd (mergeVideosWithMusic Ea cwd vsa ma wa)))
                = writtenPaths (newEvents wb (snd (mergeVideosWithMusic Eb cwd vsb mb wb)))"
    if "length vsa = length vsb"
    using a b that by simp
qed

theorem jobs_share_paths_witness:
  "fst (mergeVideosWithMusic (studio allRunsOk) ''/srv'' [clipA] song world0)
      = Resolved (outputPath ''/srv'')
   \<and> fst (mergeVideosWithMusic (studio allRunsOk) ''/srv'' [clipB] jingle world0)
      = Resolved (outputPath ''/srv'')
   \<and> length [clipA] = length [clipB]
   \<and> writtenPaths (newEvents world0 (snd (mergeVideosWithMusic (studio allRunsOk) ''/srv'' [clipA] song world0)))
       = writtenPaths (newEvents world0 (snd (mergeVideosWithMusic (studio allRunsOk) ''/srv'' [clipB] jingle world0)))
   \<and> processedPath ''/srv'' 0
         \<in> writtenPaths (newEvents world0 (snd (mergeVideosWithMusic (studio allRunsOk) ''/srv'' [clipA] song world0)))
           \<inter> writtenPaths (newEvents world0 (snd (mergeVideosWithMusic (studio allRunsOk) ''/srv'' [clipB] jingle world0)))"
proof -
  note inst = jobs_share_paths[where Ea = "studio allRunsOk" and cwd = "''/srv''" and vsa = "[clipA]"
      and ma = song and wa = world0 and outa = "outputPath ''/srv''"
      and Eb = "studio allRunsOk" and vsb = "[clipB]" and mb = jingle and wb = world0
      and outb = "outputPath ''/srv''"]
  have l: "length [clipA] = length [clipB]" "(0::nat) < length [clipA]" "(0::nat) < length [clipB]"
    by simp_all
  from inst studio_job1 studio_job2 l show ?thesis by blast
qed

section \<open>Waiting for the engine\<close>

text \<open>
  C9, as stated, fails: nothing bounds an invocation. With an engine whose probe never
  answers the merge never settles, whereas a probe that exits with an error makes it
  fail.
\<close>

theorem hanging_engine_counterexample:
  "fst (mergeVideosWithMusic (probing Pending) ''/srv'' [clipA] song world0) = Pending
   \<and> fst (mergeVideosWithMusic (probing (Rejected ''ffprobe exited with code 1'')) ''/srv'' [clipA] song world0)
       = Rejected ''Video merge failed: ffprobe exited with code 1''"
proof -
  have p: "videoVerdict (probing Pending) clipA = Pending"
    "videoVerdict (probing (Rejected ''ffprobe exited with code 1'')) clipA
       = Rejected ''ffprobe exited with code 1''"
    by (simp_all add: videoVerdict_def probing_def)
  have e: "allVideosPass E []" for E by (simp add: allVideosPass_def)
  show ?thesis
    using merge_video_fail[of "probing Pending" "[]" clipA "''/srv''" "[]" song world0]
      merge_video_fail[of "probing (Rejected ''ffprobe exited with code 1'')" "[]" clipA "''/srv''" "[]" song world0]
    by (simp add: p e mergeFailedMsg_def)
qed

text \<open>
  C9, amended. No invocation of the engine is bounded by a timeout. The merge waits for
  each invocation it makes: it stays pending exactly when one of its invocations never
  completes, and it settles (with the merged file or with a failure) exactly when all
  of them completed. An invocation that ends with an error, as on a non-zero exit,
  fails the merge with that error; one that never completes does not.
\<close>

theorem merge_pending_iff:
  "(fst (mergeVideosWithMusic E cwd vs m w) = Pending
      \<longleftrightarrow> \<not> list_all (completes E) (newEvents w (snd (mergeVideosWithMusic E cwd vs m w))))
   \<and> (\<forall>ev e. ev \<in> set (newEvents w (snd (mergeVideosWithMusic E cwd vs m w)))
              \<and> engineError E ev = Some e
          \<longrightarrow> fst (mergeVideosWithMusic E cwd vs m w) = Rejected (mergeFailedMsg e))"
  using pending_iff_incomplete[of E cwd vs m w] engine_error_fails[of _ w E cwd vs m]
  by blast

theorem merge_pending_iff_witness:
  "fst (mergeVideosWithMusic (probing Pending) ''/srv'' [clipA] song world0) = Pending
   \<and> \<not> list_all (completes (probing Pending))
         (newEvents world0 (snd (mergeVideosWithMusic (probing Pending) ''/srv'' [clipA] song world0)))
   \<and> fst (mergeVideosWithMusic (studio allRunsOk) ''/srv'' [clipA] song world0) \<noteq> Pending
   \<and> list_all (completes (studio allRunsOk))
         (newEvents world0 (snd (mergeVideosWithMusic (studio allRunsOk) ''/srv'' [clipA] song world0)))
   \<and> Probe (path clipA)
       \<in> set (newEvents world0 (snd (mergeVideosWithMusic
                 (probing (Rejected ''ffprobe exited with code 1'')) ''/srv'' [clipA] song world0)))
   \<and> engineError (probing (Rejected ''ffprobe exited with code 1'')) (Probe (path clipA))
       = Some ''ffprobe exited with code 1''
   \<and> fst (mergeVideosWithMusic (probing (Rejected ''ffprobe exited with code 1'')) ''/srv'' [clipA] song world0)
       = Rejected (mergeFailedMsg ''ffprobe exited with code 1'')"
proof -
  have p: "videoVerdict (probing Pending) clipA = Pending"
    by (simp add: videoVerdict_def probing_def)
  have e: "allVideosPass (probing Pending) []" by (simp add: allVideosPass_def)
  have 1: "fst (mergeVideosWithMusic (probing Pending) ''/srv'' [clipA] song world0) = Pending"
    using merge_video_fail[of "probing Pending" "[]" clipA "''/srv''" "[]" song world0]
    by (simp add: p e)
  have 2: "fst (mergeVideosWithMusic (studio allRunsOk) ''/srv'' [clipA] song world0) \<noteq> Pending"
    by (simp add: studio_job1)
  let ?X = "probing (Rejected ''ffprobe exited with code 1'')"
  have x: "videoVerdict ?X clipA \<noteq> Resolved ()" "allVideosPass ?X []"
    by (simp_all add: videoVerdict_def probing_def allVideosPass_def)
  have 3: "Probe (path clipA)
       \<in> set (newEvents world0 (snd (mergeVideosWithMusic ?X ''/srv'' [clipA] song world0)))"
    using merge_video_fail[of ?X "[]" clipA "''/srv''" "[]" song world0] x by simp
  have 4: "engineError ?X (Probe (path clipA)) = Some ''ffprobe exited with code 1''"
    by (simp add: probing_def)
  have 5: "fst (mergeVideosWithMusic ?X ''/srv'' [clipA] song world0)
       = Rejected (mergeFailedMsg ''ffprobe exited with code 1'')"
    using merge_pending_iff[of ?X "''/srv''" "[clipA]" song world0] 3 4 by blast
  have 6: "\<not> list_all (completes (probing Pending))
         (newEvents world0 (snd (mergeVideosWithMusic (probing Pending) ''/srv'' [clipA] song world0)))"
    using 1 merge_pending_iff[of "probing Pending" "''/srv''" "[clipA]" song world0] by blast
  have 7: "list_all (completes (studio allRunsOk))
         (newEvents world0 (snd (mergeVideosWithMusic (studio allRunsOk) ''/srv'' [clipA] song world0)))"
    using 2 merge_pending_iff[of "studio allRunsOk" "''/srv''" "[clipA]" song world0] by blast
  from 1 2 3 4 5 6 7 show ?thesis by blast
qed

section \<open>The first stream of a kind\<close>

text \<open>
  C10. Validation looks at the first stream of the required kind only. Whatever streams
  come before it (of other kinds) and after it (of any kind, codec and size), the
  verdict on a probed file is a function of that first stream: a video file is accepted
  if and only if its first video stream has a whitelisted codec and does not exceed
  3840 by 2160, and is otherwise rejected for the codec or, the codec being fine, for
  the resolution of that stream; a music file is accepted if and only if its first
  audio stream has a whitelisted codec. No later stream can rescue or spoil the file.
\<close>

theorem first_stream_decides:
  assumes "ffprobe E (path file) = Resolved md"
    and "streams md = pre @ s # post"
    and "list_all (\<lambda>x. codec_type x \<noteq> kind) pre"
    and "codec_type s = kind"
  shows "(kind = ''video'' \<longrightarrow>
            fst (validateVideo E file w) =
              (if codec_name s \<notin> set supportedVideoCodecs
               then Rejected (unsupportedVideoCodecMsg file)
               else if js_gt (width s) 3840 \<or> js_gt (height s) 2160
               then Rejected (resolutionTooHighMsg file)
               else Resolved ())
            \<and> (fst (validateVideo E file w) = Resolved ()
                 \<longleftrightarrow> codec_name s \<in> set supportedVideoCodecs
                     \<and> \<not> js_gt (width s) 3840 \<and> \<not> js_gt (height s) 2160))
       \<and> (kind = ''audio'' \<longrightarrow>
            fst (validateMusic E file w) =
              (if codec_name s \<notin> set supportedAudioCodecs
               then Rejected (unsupportedAudioCodecMsg file)
               else Resolved ())
            \<and> (fst (validateMusic E file w) = Resolved ()
                 \<longleftrightarrow> codec_name s \<in> set supportedAudioCodecs))"
proof -
  have "find (\<lambda>x. codec_type x = kind) (streams md) = Some s"
    using assms(2,3,4) by (simp add: find_first)
  then show ?thesis
    using assms(1)
    by (auto simp: validateVideo_eq validateMusic_eq videoVerdict_def musicVerdict_def
          checkVideoStreams_def checkAudioStreams_def)
qed

theorem first_stream_decides_witness:
  "fst (validateVideo (probing (Resolved \<lparr>streams = [aacStream, hdStream, vp6WideStream]\<rparr>)) clipA world0)
     = Resolved ()
   \<and> fst (validateVideo (probing (Resolved \<lparr>streams = [aacStream, vp6WideStream, hdStream]\<rparr>)) clipA world0)
     = Rejected (unsupportedVideoCodecMsg clipA)
   \<and> fst (validateMusic (probing (Resolved \<lparr>streams = [hdStream, aacStream, pcmStream]\<rparr>)) song world0)
     = Resolved ()
   \<and> fst (validateMusic (probing (Resolved \<lparr>streams = [hdStream, pcmStream, aacStream]\<rparr>)) song world0)
     = Rejected (unsupportedAudioCodecMsg song)"
proof -
  let ?mv = "\<lparr>streams = [aacStream, hdStream, vp6WideStream]\<rparr>"
  let ?mw = "\<lparr>streams = [aacStream, vp6WideStream, hdStream]\<rparr>"
  let ?ma = "\<lparr>streams = [hdStream, aacStream, pcmStream]\<rparr>"
  let ?mb = "\<lparr>streams = [hdStream, pcmStream, aacStream]\<rparr>"
  have v: "fst (validateVideo (probing (Resolved ?mv)) clipA world0) = Resolved ()"
    using first_stream_decides[of "probing (Resolved ?mv)" clipA ?mv "[aacStream]" hdStream
        "[vp6WideStream]" "''video''" world0]
    by (simp add: probing_def aacStream_def hdStream_def supportedVideoCodecs_def)
  have w: "fst (validateVideo (probing (Resolved ?mw)) clipA world0)
     = Rejected (unsupportedVideoCodecMsg clipA)"
    using first_stream_decides[of "probing (Resolved ?mw)" clipA ?mw "[aacStream]" vp6WideStream
        "[hdStream]" "''video''" world0]
    by (simp add: probing_def aacStream_def vp6WideStream_def supportedVideoCodecs_def)
  have a: "fst (validateMusic (probing (Resolved ?ma)) song world0) = Resolved ()"
    using first_stream_decides[of "probing (Resolved ?ma)" song ?ma "[hdStream]" aacStream
        "[pcmStream]" "''audio''" world0]
    by (simp add: probing_def aacStream_def hdStream_def supportedAudioCodecs_def)
  have b: "fst (validateMusic (probing (Resolved ?mb)) song world0)
     = Rejected (unsupportedAudioCodecMsg song)"
    using first_stream_decides[of "probing (Resolved ?mb)" song ?mb "[hdStream]" pcmStream
        "[aacStream]" "''audio''" world0]
    by (simp add: probing_def pcmStream_def hdStream_def supportedAudioCodecs_def)
  from v w a b show ?thesis by simp
qed

end
